theory Spec2Isabelle
  imports Main "HOL-Library.Word"
begin

unbundle bit_operations_syntax

section \<open>The learning switch of lib/learning-switch.c\<close>

text \<open>
  A shallow embedding of the OpenFlow 1.0 learning switch. Every function of
  learning-switch.c that handles a message is a HOL function of the same name. The session
  (\<open>struct lswitch\<close>) is passed in and returned; the messages a function hands to
  \<open>queue_tx\<close> are returned as a list, in the order of the calls. The value of
  \<open>time_now()\<close> during a call is the argument \<open>now\<close>. Logging is left out.
\<close>

subsection \<open>Constants of the protocol\<close>

type_synonym time_t = int
type_synonym eth_addr = "48 word"
type_synonym bytes = "8 word list"

text \<open>
  Modelled from the spec: openflow/openflow.h is not part of the sources. The message
  types and the reserved port numbers are those of section 6 of the spec; the other
  constants are those of OpenFlow 1.0, which the spec names as the wire protocol.
\<close>

definition OFPT_ECHO_REQUEST :: "8 word" where "OFPT_ECHO_REQUEST = 2"
definition OFPT_ECHO_REPLY :: "8 word" where "OFPT_ECHO_REPLY = 3"
definition OFPT_FEATURES_REQUEST :: "8 word" where "OFPT_FEATURES_REQUEST = 5"
definition OFPT_FEATURES_REPLY :: "8 word" where "OFPT_FEATURES_REPLY = 6"
definition OFPT_SET_CONFIG :: "8 word" where "OFPT_SET_CONFIG = 9"
definition OFPT_PACKET_IN :: "8 word" where "OFPT_PACKET_IN = 10"
definition OFPT_FLOW_REMOVED :: "8 word" where "OFPT_FLOW_REMOVED = 11"
definition OFPT_PACKET_OUT :: "8 word" where "OFPT_PACKET_OUT = 13"
definition OFPT_FLOW_MOD :: "8 word" where "OFPT_FLOW_MOD = 14"

definition OFPP_MAX :: "16 word" where "OFPP_MAX = 0xff00"
definition OFPP_NORMAL :: "16 word" where "OFPP_NORMAL = 0xfffa"
definition OFPP_FLOOD :: "16 word" where "OFPP_FLOOD = 0xfffb"
definition OFPP_NONE :: "16 word" where "OFPP_NONE = 0xffff"

definition OFPR_NO_MATCH :: "8 word" where "OFPR_NO_MATCH = 0"
definition UINT32_MAX :: "32 word" where "UINT32_MAX = 0xffffffff"
definition OFP_DEFAULT_MISS_SEND_LEN :: "16 word" where "OFP_DEFAULT_MISS_SEND_LEN = 128"
definition OFP_MAX_PORT_NAME_LEN :: nat where "OFP_MAX_PORT_NAME_LEN = 16"

definition OFPFW_DL_TYPE :: "32 word" where "OFPFW_DL_TYPE = push_bit 4 1"
definition OFPFW_NW_PROTO :: "32 word" where "OFPFW_NW_PROTO = push_bit 5 1"
definition OFPFW_TP_SRC :: "32 word" where "OFPFW_TP_SRC = push_bit 6 1"
definition OFPFW_TP_DST :: "32 word" where "OFPFW_TP_DST = push_bit 7 1"
definition OFPFW_NW_SRC_MASK :: "32 word" where "OFPFW_NW_SRC_MASK = push_bit 8 63"
definition OFPFW_NW_DST_MASK :: "32 word" where "OFPFW_NW_DST_MASK = push_bit 14 63"

text \<open>
  Modelled from the spec: the sizes the dispatch table compares \<open>msg->size\<close> with,
  \<open>sizeof(struct ofp_header)\<close>, \<open>sizeof(struct ofp_switch_features)\<close>,
  \<open>offsetof(struct ofp_packet_in, data)\<close> and \<open>sizeof(struct ofp_flow_removed)\<close>, and
  the element size \<open>sizeof(struct ofp_phy_port)\<close> of the port array of a features reply.
  The spec gives the header (8 bytes) and the prefix of a packet-in (18 bytes); the others
  are the sizes of the OpenFlow 1.0 wire layout. No property below depends on their values.
\<close>

definition sizeof_ofp_header :: nat where "sizeof_ofp_header = 8"
definition sizeof_ofp_switch_features :: nat where "sizeof_ofp_switch_features = 32"
definition offsetof_ofp_packet_in_data :: nat where "offsetof_ofp_packet_in_data = 18"
definition sizeof_ofp_flow_removed :: nat where "sizeof_ofp_flow_removed = 88"
definition sizeof_ofp_phy_port :: nat where "sizeof_ofp_phy_port = 48"

lemmas ofp_consts =
  OFPT_ECHO_REQUEST_def OFPT_ECHO_REPLY_def OFPT_FEATURES_REQUEST_def
  OFPT_FEATURES_REPLY_def OFPT_SET_CONFIG_def OFPT_PACKET_IN_def OFPT_FLOW_REMOVED_def
  OFPT_PACKET_OUT_def OFPT_FLOW_MOD_def OFPP_MAX_def OFPP_NORMAL_def OFPP_FLOOD_def
  OFPP_NONE_def OFPR_NO_MATCH_def UINT32_MAX_def OFP_DEFAULT_MISS_SEND_LEN_def
  OFP_MAX_PORT_NAME_LEN_def sizeof_ofp_header_def sizeof_ofp_switch_features_def
  offsetof_ofp_packet_in_data_def sizeof_ofp_flow_removed_def sizeof_ofp_phy_port_def

subsection \<open>Ethernet addresses\<close>

text \<open>
  An address \<open>uint8_t[6]\<close> is the 48-bit word of its six bytes, first byte highest.
\<close>

text \<open>
  Modelled from the spec: \<open>eth_addr_is_reserved\<close> of packets.h is not part of the
  sources. The reserved multicast addresses are the range
  01:80:C2:00:00:00/ff:ff:ff:ff:ff:f0.
\<close>

definition eth_addr_is_reserved :: "eth_addr \<Rightarrow> bool" where
  "eth_addr_is_reserved ea = (ea AND 0xfffffffffff0 = 0x0180c2000000)"

text \<open>
  Modelled from the spec: the tests for the sources the learning table refuses, multicast
  addresses (the group bit, the lowest bit of the first byte, is set) and the zero address.
\<close>

definition eth_addr_is_multicast :: "eth_addr \<Rightarrow> bool" where
  "eth_addr_is_multicast ea = (ea AND 0x010000000000 \<noteq> 0)"

definition eth_addr_is_zero :: "eth_addr \<Rightarrow> bool" where
  "eth_addr_is_zero ea = (ea = 0)"

subsection \<open>The MAC learning table\<close>

text \<open>
  Modelled from the spec: lib/mac-learning.c is not part of the sources. The table is a
  bounded mapping from (station address, VLAN) to port, learned-ts, used-ts and lock-state,
  kept as its recency list, least recently used entry first. An entry whose lock-state is
  \<open>Some t\<close> refuses updates and is hidden from lookups until time \<open>t\<close>.
\<close>

record mac_entry =
  me_mac :: eth_addr
  me_vlan :: "16 word"
  me_port :: "16 word"
  me_learned_ts :: time_t
  me_used_ts :: time_t
  me_lock :: "time_t option"

type_synonym mac_learning = "mac_entry list"

text \<open>
  Modelled from the spec: the lock argument of \<open>learn\<close>. The switch passes
  \<open>GRAT_ARP_LOCK_NONE\<close> to every call and never sets a lock; only this value is
  modelled.
\<close>

datatype grat_arp_lock_type = GRAT_ARP_LOCK_NONE

text \<open>
  Modelled from the spec: the capacity bound and the age beyond which an entry is invisible
  to lookups, with the values the spec gives as examples.
\<close>

definition MAX_ENTRIES :: nat where "MAX_ENTRIES = 2048"
definition AGE_HARD :: int where "AGE_HARD = 300"

text \<open>Modelled from the spec: \<open>mac_learning_create\<close>, the empty table.\<close>

definition mac_learning_create :: mac_learning where
  "mac_learning_create = []"

text \<open>
  Modelled from the spec: an entry has the key (station address, VLAN); it is locked while
  the time is before the end of its lock.
\<close>

definition me_has_key :: "eth_addr \<Rightarrow> 16 word \<Rightarrow> mac_entry \<Rightarrow> bool" where
  "me_has_key mac vlan e = (me_mac e = mac \<and> me_vlan e = vlan)"

definition me_locked :: "time_t \<Rightarrow> mac_entry \<Rightarrow> bool" where
  "me_locked now e = (case me_lock e of None \<Rightarrow> False | Some t \<Rightarrow> now < t)"

text \<open>
  Modelled from the spec: \<open>learn(src, vlan, in_port)\<close> refuses multicast and zero
  sources and leaves a locked entry as it is; it overwrites the port of an existing entry
  that has a different one and answers \<open>True\<close> (a move); otherwise it inserts or
  refreshes and answers \<open>False\<close>. A touched entry moves to the most recent end; an
  insertion into a full table evicts the least recently used entry.
\<close>

definition mac_learning_learn ::
  "mac_learning \<Rightarrow> eth_addr \<Rightarrow> 16 word \<Rightarrow> 16 word \<Rightarrow> grat_arp_lock_type \<Rightarrow> time_t
     \<Rightarrow> bool \<times> mac_learning" where
  "mac_learning_learn tbl src vlan src_port lock now =
     (if eth_addr_is_multicast src \<or> eth_addr_is_zero src then (False, tbl)
      else
        case find (me_has_key src vlan) tbl of
          Some e \<Rightarrow>
            if me_locked now e then (False, tbl)
            else if me_port e \<noteq> src_port then
              (True, filter (\<lambda>x. \<not> me_has_key src vlan x) tbl @
                 [e\<lparr>me_port := src_port, me_learned_ts := now, me_used_ts := now\<rparr>])
            else
              (False, filter (\<lambda>x. \<not> me_has_key src vlan x) tbl @
                 [e\<lparr>me_used_ts := now\<rparr>])
        | None \<Rightarrow>
            (False, (if MAX_ENTRIES \<le> length tbl then tl tbl else tbl) @
               [\<lparr>me_mac = src, me_vlan = vlan, me_port = src_port,
                 me_learned_ts = now, me_used_ts = now, me_lock = None\<rparr>]))"

text \<open>
  Modelled from the spec: \<open>lookup(dst, vlan)\<close> gives the port, or UNKNOWN (the negative
  result the caller tests for) when the key is absent, aged beyond \<open>AGE_HARD\<close>, or
  locked.
\<close>

definition mac_learning_lookup ::
  "mac_learning \<Rightarrow> eth_addr \<Rightarrow> 16 word \<Rightarrow> time_t \<Rightarrow> int" where
  "mac_learning_lookup tbl dst vlan now =
     (case find (me_has_key dst vlan) tbl of
        None \<Rightarrow> - 1
      | Some e \<Rightarrow>
          if AGE_HARD < now - me_used_ts e \<or> me_locked now e then - 1
          else uint (me_port e))"

subsection \<open>Messages\<close>

text \<open>
  A received buffer (\<open>struct ofpbuf\<close>): its size, the fields of its \<open>struct ofp_header\<close>,
  and the fields the handlers read after casting \<open>msg->data\<close> to
  \<open>struct ofp_switch_features\<close> or to \<open>struct ofp_packet_in\<close>, all in host byte order.
  \<open>osf_ports\<close> and \<open>opi_data\<close> are what lies in memory from the start of the
  arrays \<open>ports\<close> and \<open>data\<close>.
\<close>

record ofp_phy_port =
  opp_port_no :: "16 word"
  opp_name :: string

record ofpbuf =
  msg_size :: nat
  oh_type :: "8 word"
  oh_length :: "16 word"
  oh_xid :: "32 word"
  osf_datapath_id :: "64 word"
  osf_ports :: "ofp_phy_port list"
  opi_buffer_id :: "32 word"
  opi_in_port :: "16 word"
  opi_reason :: "8 word"
  opi_data :: bytes

text \<open>
  \<open>struct flow\<close>: the ingress port, the station addresses, and the other fields of the
  key, which the switch hands on unread.
\<close>

record flow =
  in_port :: "16 word"
  dl_src :: eth_addr
  dl_dst :: eth_addr
  dl_vlan :: "16 word"
  l3_l4 :: bytes

datatype ofp_action =
    OFPAT_OUTPUT "16 word"
  | OFPAT_ENQUEUE "16 word" "32 word"

text \<open>
  The messages handed to \<open>queue_tx\<close>, each with the arguments its constructor of
  ofp-util.c is called with: \<open>make_openflow\<close> for the features request and the
  set-config, \<open>make_echo_reply(rq)\<close>, \<open>make_add_flow(flow, buffer_id, idle_timeout,
  actions_len)\<close> followed by the actions and the wildcards written into it,
  \<open>make_packet_out(pkt, buffer_id, in_port, actions, n_actions)\<close>, and
  \<open>ofpbuf_clone(b)\<close> for a default flow. Whether the connection accepts a message does
  not change the session: \<open>queue_tx\<close> only logs.

  Modelled from the spec: the declaration of \<open>make_add_flow\<close> (ofp-util.h) is not part
  of the sources. The wire protocol is OpenFlow 1.0, whose flow-mod has a 16-bit idle
  timeout: the parameter \<open>idle_timeout\<close> is a \<open>uint16_t\<close>, and the \<open>int\<close> the
  switch passes is narrowed to it at the call.
\<close>

datatype ofp_out =
    FeaturesRequest
  | SetConfig (miss_send_len: "16 word")
  | EchoReply ofpbuf
  | AddFlow (af_flow: flow) (af_buffer_id: "32 word") (af_idle_timeout: "16 word")
      (af_actions: "ofp_action list") (af_wildcards: "32 word")
  | PacketOut (po_pkt: bytes) (po_buffer_id: "32 word") (po_in_port: "16 word")
      (po_actions: "ofp_action list")
  | Clone ofpbuf

fun ofp_out_type :: "ofp_out \<Rightarrow> 8 word" where
  "ofp_out_type FeaturesRequest = OFPT_FEATURES_REQUEST"
| "ofp_out_type (SetConfig _) = OFPT_SET_CONFIG"
| "ofp_out_type (EchoReply _) = OFPT_ECHO_REPLY"
| "ofp_out_type (AddFlow _ _ _ _ _) = OFPT_FLOW_MOD"
| "ofp_out_type (PacketOut _ _ _ _) = OFPT_PACKET_OUT"
| "ofp_out_type (Clone b) = oh_type b"

subsection \<open>The session\<close>

text \<open>
  \<open>struct lswitch_port\<close>: \<open>port_no\<close> is not initialised before the port is
  inserted into the hash map (\<open>None\<close>); \<open>hmap_node_null\<close> tells whether its
  \<open>hmap_node\<close> is still null.

  \<open>struct lswitch\<close>: \<open>queue_names\<close> owns the ports, by name; \<open>queue_numbers\<close>
  refers to the inserted ones by their names, the latest insertion first. The order only
  tells which of several ports with one number \<open>get_queue_id\<close> finds; in C it is
  the order of the bucket of the hash map. The counter \<open>queued\<close> belongs to the
  connection and is left out.
\<close>

record lswitch_port =
  port_no :: "16 word option"
  queue_id :: "32 word"
  hmap_node_null :: bool

record lswitch =
  max_idle :: int
  datapath_id :: "64 word"
  last_features_request :: time_t
  ml :: "mac_learning option"
  wildcards :: "32 word"
  action_normal :: bool
  default_queue :: "32 word"
  queue_numbers :: "string list"
  queue_names :: "string \<rightharpoonup> lswitch_port"

text \<open>
  Modelled from the spec: \<open>struct lswitch_config\<close> and its modes are declared in
  learning-switch.h, which is not part of the sources. The modes are normal, hub
  (\<open>LSW_FLOOD\<close>) and learn; the options are those of section 6 of the spec.
  \<open>cfg_port_queues\<close> is \<open>None\<close> for a null pointer.
\<close>

datatype lswitch_mode = LSW_NORMAL | LSW_FLOOD | LSW_LEARN

record lswitch_config =
  cfg_mode :: lswitch_mode
  cfg_max_idle :: int
  cfg_exact_flows :: bool
  cfg_default_flows :: "ofpbuf list"
  cfg_default_queue :: "32 word"
  cfg_port_queues :: "(string \<rightharpoonup> 32 word) option"

definition send_features_request :: "lswitch \<Rightarrow> time_t \<Rightarrow> lswitch \<times> ofp_out list" where
  "send_features_request sw now =
     (if last_features_request sw + 1 \<le> now then
        (sw\<lparr>last_features_request := now\<rparr>,
         [FeaturesRequest, SetConfig OFP_DEFAULT_MISS_SEND_LEN])
      else (sw, []))"

definition lswitch_create :: "lswitch_config \<Rightarrow> time_t \<Rightarrow> lswitch \<times> ofp_out list" where
  "lswitch_create cfg now =
     (let sw = \<lparr>max_idle = cfg_max_idle cfg,
                datapath_id = 0,
                last_features_request = now - 1,
                ml = (if cfg_mode cfg = LSW_LEARN then Some mac_learning_create else None),
                wildcards =
                  (if cfg_exact_flows cfg then 0
                   else OFPFW_DL_TYPE OR OFPFW_NW_SRC_MASK OR OFPFW_NW_DST_MASK
                          OR OFPFW_NW_PROTO OR OFPFW_TP_SRC OR OFPFW_TP_DST),
                action_normal = (cfg_mode cfg = LSW_NORMAL),
                default_queue = cfg_default_queue cfg,
                queue_numbers = [],
                queue_names =
                  (case cfg_port_queues cfg of
                     None \<Rightarrow> Map.empty
                   | Some pq \<Rightarrow>
                       (\<lambda>name. map_option
                          (\<lambda>q. \<lparr>port_no = None, queue_id = q, hmap_node_null = True\<rparr>)
                          (pq name)))\<rparr>;
          (sw', out) = send_features_request sw now
      in (sw', out @ map Clone (cfg_default_flows cfg)))"

subsection \<open>Features replies\<close>

text \<open>
  Modelled from the spec: \<open>check_ofp_message_array\<close> of ofp-util.c is not part of the
  sources. A features reply is its fixed part followed by N ports: the check fails unless
  the length of the header is the fixed size plus a multiple of the element size, and
  gives that multiple.
\<close>

definition check_ofp_message_array :: "ofpbuf \<Rightarrow> nat \<Rightarrow> nat \<Rightarrow> nat option" where
  "check_ofp_message_array msg min_size array_elt_size =
     (let got_size = unat (oh_length msg) in
      if got_size < min_size then None
      else if (got_size - min_size) mod array_elt_size \<noteq> 0 then None
      else Some ((got_size - min_size) div array_elt_size))"

text \<open>
  The name under which a port of the reply is looked up: the C string left in
  \<open>opp->name\<close> once its last byte is zeroed.
\<close>

definition opp_name_str :: "ofp_phy_port \<Rightarrow> string" where
  "opp_name_str opp =
     takeWhile (\<lambda>c. c \<noteq> CHR 0x00) (take (OFP_MAX_PORT_NAME_LEN - 1) (opp_name opp))"

text \<open>One turn of the loop over the ports of the reply.\<close>

definition resolve_port :: "lswitch \<Rightarrow> ofp_phy_port \<Rightarrow> lswitch" where
  "resolve_port sw opp =
     (case queue_names sw (opp_name_str opp) of
        None \<Rightarrow> sw
      | Some lp \<Rightarrow>
          if hmap_node_null lp then
            sw\<lparr>queue_names := (queue_names sw)(opp_name_str opp \<mapsto>
                   lp\<lparr>port_no := Some (opp_port_no opp), hmap_node_null := False\<rparr>),
               queue_numbers := opp_name_str opp # queue_numbers sw\<rparr>
          else sw)"

definition process_switch_features :: "lswitch \<Rightarrow> ofpbuf \<Rightarrow> lswitch" where
  "process_switch_features sw osf =
     (case check_ofp_message_array osf sizeof_ofp_switch_features sizeof_ofp_phy_port of
        None \<Rightarrow> sw
      | Some n_ports \<Rightarrow>
          foldl resolve_port (sw\<lparr>datapath_id := osf_datapath_id osf\<rparr>)
            (take n_ports (osf_ports osf)))"

subsection \<open>Packet-in\<close>

text \<open>
  Modelled from the spec: the flow extractor (\<open>flow_extract\<close> of lib/flow.c) is a
  collaborator outside the sources. The fields it reads from the packet are the parameter
  \<open>fx\<close>; the ingress port of the flow is the one it is called with.
\<close>

type_synonym extractor = "bytes \<Rightarrow> flow"

definition flow_extract :: "extractor \<Rightarrow> bytes \<Rightarrow> 16 word \<Rightarrow> flow" where
  "flow_extract fx pkt port = (fx pkt)\<lparr>in_port := port\<rparr>"

text \<open>The end of \<open>lswitch_choose_destination\<close>: the check for the NORMAL action.\<close>

definition use_normal :: "lswitch \<Rightarrow> 16 word \<Rightarrow> 16 word" where
  "use_normal sw out_port =
     (if action_normal sw \<and> out_port \<noteq> OFPP_FLOOD then OFPP_NORMAL else out_port)"

definition learn_source :: "lswitch \<Rightarrow> flow \<Rightarrow> time_t \<Rightarrow> lswitch" where
  "learn_source sw fl now =
     (case ml sw of
        None \<Rightarrow> sw
      | Some tbl \<Rightarrow>
          sw\<lparr>ml := Some (snd (mac_learning_learn tbl (dl_src fl) 0 (in_port fl)
                                 GRAT_ARP_LOCK_NONE now))\<rparr>)"

definition lswitch_choose_destination ::
  "lswitch \<Rightarrow> flow \<Rightarrow> time_t \<Rightarrow> 16 word \<times> lswitch" where
  "lswitch_choose_destination sw fl now =
     (let sw' = learn_source sw fl now in
      if eth_addr_is_reserved (dl_dst fl) then (OFPP_NONE, sw')
      else
        case ml sw' of
          None \<Rightarrow> (use_normal sw' OFPP_FLOOD, sw')
        | Some tbl \<Rightarrow>
            let learned_port = mac_learning_lookup tbl (dl_dst fl) 0 now in
            if 0 \<le> learned_port then
              let out_port = (word_of_int learned_port :: 16 word) in
              if out_port = in_port fl then (OFPP_NONE, sw')
              else (use_normal sw' out_port, sw')
            else (use_normal sw' OFPP_FLOOD, sw'))"

text \<open>The ports in the hash map, in the order of \<open>queue_numbers\<close>.\<close>

definition hmap_ports :: "lswitch \<Rightarrow> lswitch_port list" where
  "hmap_ports sw = List.map_filter (queue_names sw) (queue_numbers sw)"

definition get_queue_id :: "lswitch \<Rightarrow> 16 word \<Rightarrow> 32 word" where
  "get_queue_id sw port =
     (case find (\<lambda>lp. port_no lp = Some port) (hmap_ports sw) of
        Some lp \<Rightarrow> queue_id lp
      | None \<Rightarrow> default_queue sw)"

definition make_actions :: "16 word \<Rightarrow> 32 word \<Rightarrow> ofp_action list" where
  "make_actions out_port qid =
     (if out_port = OFPP_NONE then []
      else if qid = UINT32_MAX \<or> OFPP_MAX \<le> out_port then [OFPAT_OUTPUT out_port]
      else [OFPAT_ENQUEUE out_port qid])"

text \<open>
  \<open>pkt_len\<close> is a \<open>size_t\<close>: a header length below the offset of the data wraps
  around (64 bits).
\<close>

definition pkt_of :: "ofpbuf \<Rightarrow> bytes" where
  "pkt_of opi =
     (let pkt_ofs = offsetof_ofp_packet_in_data;
          pkt_len = (unat (oh_length opi) + 2 ^ 64 - pkt_ofs) mod 2 ^ 64
      in take pkt_len (opi_data opi))"

definition process_packet_in ::
  "extractor \<Rightarrow> lswitch \<Rightarrow> ofpbuf \<Rightarrow> time_t \<Rightarrow> lswitch \<times> ofp_out list" where
  "process_packet_in fx sw opi now =
     (if opi_reason opi \<noteq> OFPR_NO_MATCH then (sw, [])
      else
        let port = opi_in_port opi;
            pkt = pkt_of opi;
            fl = flow_extract fx pkt port;
            (out_port, sw') = lswitch_choose_destination sw fl now;
            qid = get_queue_id sw' port;
            actions = make_actions out_port qid
        in
          if 0 \<le> max_idle sw' \<and> (ml sw' = None \<or> out_port \<noteq> OFPP_FLOOD) then
            (sw', AddFlow fl (opi_buffer_id opi) (word_of_int (max_idle sw')) actions
                    (wildcards sw') #
                  (if opi_buffer_id opi = UINT32_MAX \<and> actions \<noteq> []
                   then [PacketOut pkt UINT32_MAX port actions] else []))
          else
            (sw', if opi_buffer_id opi \<noteq> UINT32_MAX \<or> actions \<noteq> []
                  then [PacketOut pkt (opi_buffer_id opi) port actions] else []))"

definition process_echo_request :: "lswitch \<Rightarrow> ofpbuf \<Rightarrow> lswitch \<times> ofp_out list" where
  "process_echo_request sw rq = (sw, [EchoReply rq])"

subsection \<open>Dispatch\<close>

type_synonym packet_handler_func =
  "extractor \<Rightarrow> lswitch \<Rightarrow> ofpbuf \<Rightarrow> time_t \<Rightarrow> lswitch \<times> ofp_out list"

record processor =
  p_type :: "8 word"
  p_min_size :: nat
  p_handler :: "packet_handler_func option"

definition processors :: "processor list" where
  "processors =
     [\<lparr>p_type = OFPT_ECHO_REQUEST, p_min_size = sizeof_ofp_header,
       p_handler = Some (\<lambda>fx sw msg now. process_echo_request sw msg)\<rparr>,
      \<lparr>p_type = OFPT_FEATURES_REPLY, p_min_size = sizeof_ofp_switch_features,
       p_handler = Some (\<lambda>fx sw msg now. (process_switch_features sw msg, []))\<rparr>,
      \<lparr>p_type = OFPT_PACKET_IN, p_min_size = offsetof_ofp_packet_in_data,
       p_handler = Some process_packet_in\<rparr>,
      \<lparr>p_type = OFPT_FLOW_REMOVED, p_min_size = sizeof_ofp_flow_removed,
       p_handler = None\<rparr>]"

definition lswitch_process_packet ::
  "extractor \<Rightarrow> lswitch \<Rightarrow> ofpbuf \<Rightarrow> time_t \<Rightarrow> lswitch \<times> ofp_out list" where
  "lswitch_process_packet fx sw msg now =
     (if datapath_id sw = 0 \<and> oh_type msg \<noteq> OFPT_ECHO_REQUEST
         \<and> oh_type msg \<noteq> OFPT_FEATURES_REPLY
      then send_features_request sw now
      else
        case find (\<lambda>p. oh_type msg = p_type p) processors of
          None \<Rightarrow> (sw, [])
        | Some p \<Rightarrow>
            if msg_size msg < p_min_size p then (sw, [])
            else
              (case p_handler p of
                 None \<Rightarrow> (sw, [])
               | Some handler \<Rightarrow> handler fx sw msg now))"

text \<open>
  A session receiving messages one after the other: the final session, and every message
  it hands to the connection, each with the datapath id the session had when the message
  that caused it arrived.
\<close>

fun lswitch_process_all ::
  "extractor \<Rightarrow> lswitch \<Rightarrow> (ofpbuf \<times> time_t) list \<Rightarrow> lswitch" where
  "lswitch_process_all fx sw [] = sw"
| "lswitch_process_all fx sw ((msg, now) # rest) =
     lswitch_process_all fx (fst (lswitch_process_packet fx sw msg now)) rest"

fun lswitch_trace ::
  "extractor \<Rightarrow> lswitch \<Rightarrow> (ofpbuf \<times> time_t) list \<Rightarrow> (64 word \<times> ofp_out) list" where
  "lswitch_trace fx sw [] = []"
| "lswitch_trace fx sw ((msg, now) # rest) =
     (let (sw', out) = lswitch_process_packet fx sw msg now
      in map (Pair (datapath_id sw)) out @ lswitch_trace fx sw' rest)"

subsection \<open>Notions used in the properties\<close>

text \<open>The action list a message to the datapath carries.\<close>

fun out_actions :: "ofp_out \<Rightarrow> ofp_action list" where
  "out_actions (AddFlow _ _ _ a _) = a"
| "out_actions (PacketOut _ _ _ a) = a"
| "out_actions _ = []"

text \<open>
  The mode of a session, read back from the two fields \<open>lswitch_create\<close> sets from it:
  only a session in mode \<open>LSW_LEARN\<close> has a learning table.
\<close>

definition lswitch_mode_of :: "lswitch \<Rightarrow> lswitch_mode" where
  "lswitch_mode_of sw =
     (if ml sw \<noteq> None then LSW_LEARN else if action_normal sw then LSW_NORMAL else LSW_FLOOD)"

text \<open>
  A binding is resolved when its port is owned under its name, has left the null state and
  is referred to by the hash map.
\<close>

definition resolved :: "lswitch \<Rightarrow> string \<Rightarrow> lswitch_port \<Rightarrow> bool" where
  "resolved sw name lp =
     (queue_names sw name = Some lp \<and> \<not> hmap_node_null lp \<and> name \<in> set (queue_numbers sw))"

text \<open>The port number of the binding of a name.\<close>

definition port_no_of :: "lswitch \<Rightarrow> string \<Rightarrow> 16 word option" where
  "port_no_of sw name = (case queue_names sw name of None \<Rightarrow> None | Some lp \<Rightarrow> port_no lp)"

text \<open>
  The hash map refers to each port at most once, and only to ports that have left the null
  state.
\<close>

definition index_inv :: "lswitch \<Rightarrow> bool" where
  "index_inv sw =
     (distinct (queue_numbers sw)
      \<and> (\<forall>name \<in> set (queue_numbers sw).
            case queue_names sw name of None \<Rightarrow> False | Some lp \<Rightarrow> \<not> hmap_node_null lp))"

text \<open>The ports of a features reply that \<open>process_switch_features\<close> visits.\<close>

definition listed_ports :: "ofpbuf \<Rightarrow> ofp_phy_port list" where
  "listed_ports osf =
     (case check_ofp_message_array osf sizeof_ofp_switch_features sizeof_ofp_phy_port of
        None \<Rightarrow> []
      | Some n_ports \<Rightarrow> take n_ports (osf_ports osf))"

text \<open>
  The ports of a reply do not report one port number under two names, nor a port number
  that the hash map holds under another name.
\<close>

definition port_numbers_agree :: "lswitch \<Rightarrow> ofp_phy_port list \<Rightarrow> bool" where
  "port_numbers_agree sw ports =
     ((\<forall>p \<in> set ports. \<forall>q \<in> set ports.
          opp_port_no p = opp_port_no q \<longrightarrow> opp_name_str p = opp_name_str q)
      \<and> (\<forall>p \<in> set ports. \<forall>name \<in> set (queue_numbers sw).
            port_no_of sw name = Some (opp_port_no p) \<longrightarrow> name = opp_name_str p))"

text \<open>No entry of the learning table of the session carries a lock.\<close>

definition ml_unlocked :: "lswitch \<Rightarrow> bool" where
  "ml_unlocked sw = (case ml sw of None \<Rightarrow> True | Some tbl \<Rightarrow> \<forall>e \<in> set tbl. me_lock e = None)"

subsection \<open>Concrete inputs\<close>

text \<open>
  Buffers, a configuration and sessions on which the theorems below are evaluated. The
  extractor \<open>ex_fx src dst\<close> reports the two station addresses for every packet.
  \<open>ex_sw\<close> is a session after its handshake: created at time 0 with queues bound to
  the names eth0 and eth1, then told of port 5, named eth0, by a features reply.
\<close>

definition ex_msg :: ofpbuf where
  "ex_msg = \<lparr>msg_size = 8, oh_type = 0, oh_length = 8, oh_xid = 0, osf_datapath_id = 0,
             osf_ports = [], opi_buffer_id = 0, opi_in_port = 0, opi_reason = 0,
             opi_data = []\<rparr>"

definition ex_features_reply :: "64 word \<Rightarrow> ofp_phy_port list \<Rightarrow> ofpbuf" where
  "ex_features_reply dpid ports =
     ex_msg\<lparr>msg_size := 32 + 48 * length ports, oh_type := OFPT_FEATURES_REPLY,
            oh_length := of_nat (32 + 48 * length ports), osf_datapath_id := dpid,
            osf_ports := ports\<rparr>"

definition ex_packet_in :: "16 word \<Rightarrow> 32 word \<Rightarrow> ofpbuf" where
  "ex_packet_in port buffer =
     ex_msg\<lparr>msg_size := 20, oh_type := OFPT_PACKET_IN, oh_length := 20,
            opi_buffer_id := buffer, opi_in_port := port, opi_reason := OFPR_NO_MATCH,
            opi_data := [0xca, 0xfe]\<rparr>"

definition ex_fx :: "eth_addr \<Rightarrow> eth_addr \<Rightarrow> extractor" where
  "ex_fx src dst =
     (\<lambda>pkt. \<lparr>in_port = 0, dl_src = src, dl_dst = dst, dl_vlan = 0, l3_l4 = pkt\<rparr>)"

definition ex_cfg :: "lswitch_mode \<Rightarrow> int \<Rightarrow> lswitch_config" where
  "ex_cfg mode idle =
     \<lparr>cfg_mode = mode, cfg_max_idle = idle, cfg_exact_flows = False,
      cfg_default_flows = [], cfg_default_queue = 3,
      cfg_port_queues = Some [''eth0'' \<mapsto> 7, ''eth1'' \<mapsto> 8]\<rparr>"

definition ex_sw :: "lswitch_mode \<Rightarrow> int \<Rightarrow> lswitch" where
  "ex_sw mode idle =
     process_switch_features (fst (lswitch_create (ex_cfg mode idle) 0))
       (ex_features_reply 0x0123456789abcdef [\<lparr>opp_port_no = 5, opp_name = ''eth0''\<rparr>])"

text \<open>
  \<open>ex_sw2\<close> is the learning session after a packet-in from station 66:77:88:99:aa:bb on
  port 2.
\<close>

definition ex_sw2 :: lswitch where
  "ex_sw2 = fst (process_packet_in (ex_fx 0x66778899aabb 0x001122334455) (ex_sw LSW_LEARN 60)
                   (ex_packet_in 2 UINT32_MAX) 7)"

text \<open>A features reply with datapath id 0 that lists port 6 under the name eth1.\<close>

definition ex_reply0 :: ofpbuf where
  "ex_reply0 = ex_features_reply 0 [\<lparr>opp_port_no = 6, opp_name = ''eth1''\<rparr>]"

text \<open>A configuration with one default flow, a flow-mod.\<close>

definition ex_cfg_default_flow :: lswitch_config where
  "ex_cfg_default_flow =
     (ex_cfg LSW_LEARN 60)\<lparr>cfg_default_flows := [ex_msg\<lparr>oh_type := OFPT_FLOW_MOD\<rparr>]\<rparr>"

definition ex_echo_request :: ofpbuf where
  "ex_echo_request = ex_msg\<lparr>oh_type := OFPT_ECHO_REQUEST\<rparr>"

section \<open>Properties\<close>

subsection \<open>What the policy engine leaves unchanged\<close>

lemma learn_source_simps [simp]:
  "max_idle (learn_source sw fl now) = max_idle sw"
  "datapath_id (learn_source sw fl now) = datapath_id sw"
  "last_features_request (learn_source sw fl now) = last_features_request sw"
  "wildcards (learn_source sw fl now) = wildcards sw"
  "action_normal (learn_source sw fl now) = action_normal sw"
  "default_queue (learn_source sw fl now) = default_queue sw"
  "queue_numbers (learn_source sw fl now) = queue_numbers sw"
  "queue_names (learn_source sw fl now) = queue_names sw"
  "(ml (learn_source sw fl now) = None) = (ml sw = None)"
  by (simp_all add: learn_source_def split: option.splits)

lemma choose_destination_snd [simp]:
  "snd (lswitch_choose_destination sw fl now) = learn_source sw fl now"
  by (simp add: lswitch_choose_destination_def Let_def split: option.splits)

lemma get_queue_id_learn_source [simp]:
  "get_queue_id (learn_source sw fl now) p = get_queue_id sw p"
  by (simp add: get_queue_id_def hmap_ports_def split: option.splits)

text \<open>The handler of a packet-in, with the session it passes on taken apart.\<close>

lemma process_packet_in_out:
  "snd (process_packet_in fx sw opi now) =
     (if opi_reason opi \<noteq> OFPR_NO_MATCH then []
      else
        let fl = flow_extract fx (pkt_of opi) (opi_in_port opi);
            out_port = fst (lswitch_choose_destination sw fl now);
            actions = make_actions out_port (get_queue_id sw (opi_in_port opi))
        in
          if 0 \<le> max_idle sw \<and> (ml sw = None \<or> out_port \<noteq> OFPP_FLOOD) then
            AddFlow fl (opi_buffer_id opi) (word_of_int (max_idle sw)) actions
              (wildcards sw) #
              (if opi_buffer_id opi = UINT32_MAX \<and> actions \<noteq> []
               then [PacketOut (pkt_of opi) UINT32_MAX (opi_in_port opi) actions] else [])
          else
            (if opi_buffer_id opi \<noteq> UINT32_MAX \<or> actions \<noteq> []
             then [PacketOut (pkt_of opi) (opi_buffer_id opi) (opi_in_port opi) actions]
             else []))"
proof -
  let ?fl = "flow_extract fx (pkt_of opi) (opi_in_port opi)"
  obtain p s where ps: "lswitch_choose_destination sw ?fl now = (p, s)"
    by (cases "lswitch_choose_destination sw ?fl now")
  then have s: "s = learn_source sw ?fl now"
    using choose_destination_snd [of sw ?fl now] by simp
  show ?thesis
    by (auto simp: process_packet_in_def Let_def ps s)
qed

lemma process_packet_in_state:
  "fst (process_packet_in fx sw opi now) =
     (if opi_reason opi \<noteq> OFPR_NO_MATCH then sw
      else learn_source sw (flow_extract fx (pkt_of opi) (opi_in_port opi)) now)"
proof -
  let ?fl = "flow_extract fx (pkt_of opi) (opi_in_port opi)"
  obtain p s where ps: "lswitch_choose_destination sw ?fl now = (p, s)"
    by (cases "lswitch_choose_destination sw ?fl now")
  then have s: "s = learn_source sw ?fl now"
    using choose_destination_snd [of sw ?fl now] by simp
  show ?thesis
    by (simp add: process_packet_in_def Let_def ps s)
qed

text \<open>The dispatch table, taken apart.\<close>

lemma lswitch_process_packet_unfold:
  "lswitch_process_packet fx sw msg now =
     (if datapath_id sw = 0 \<and> oh_type msg \<noteq> OFPT_ECHO_REQUEST
         \<and> oh_type msg \<noteq> OFPT_FEATURES_REPLY
      then send_features_request sw now
      else if oh_type msg = OFPT_ECHO_REQUEST then
        (if msg_size msg < sizeof_ofp_header then (sw, []) else process_echo_request sw msg)
      else if oh_type msg = OFPT_FEATURES_REPLY then
        (if msg_size msg < sizeof_ofp_switch_features then (sw, [])
         else (process_switch_features sw msg, []))
      else if oh_type msg = OFPT_PACKET_IN then
        (if msg_size msg < offsetof_ofp_packet_in_data then (sw, [])
         else process_packet_in fx sw msg now)
      else (sw, []))"
  by (simp add: lswitch_process_packet_def processors_def ofp_consts)

lemma lswitch_process_packet_cases:
  obtains (resend) "lswitch_process_packet fx sw msg now = send_features_request sw now"
  | (drop) "lswitch_process_packet fx sw msg now = (sw, [])"
  | (echo) "lswitch_process_packet fx sw msg now = process_echo_request sw msg"
  | (features) "lswitch_process_packet fx sw msg now = (process_switch_features sw msg, [])"
  | (packet_in) "lswitch_process_packet fx sw msg now = process_packet_in fx sw msg now"
  unfolding lswitch_process_packet_unfold by presburger

lemma dispatch_packet_in:
  assumes "datapath_id sw \<noteq> 0" "oh_type msg = OFPT_PACKET_IN"
  shows "lswitch_process_packet fx sw msg now =
           (if msg_size msg < offsetof_ofp_packet_in_data then (sw, [])
            else process_packet_in fx sw msg now)"
  using assms by (simp add: lswitch_process_packet_def processors_def ofp_consts)

subsection \<open>The concrete session\<close>

lemmas ex_defs =
  ex_msg_def ex_features_reply_def ex_packet_in_def ex_fx_def ex_cfg_def ex_sw_def

lemmas handshake_defs =
  lswitch_create_def send_features_request_def process_switch_features_def
  check_ofp_message_array_def resolve_port_def opp_name_str_def Let_def

lemma ex_sw_fields:
  "max_idle (ex_sw mode idle) = idle"
  "datapath_id (ex_sw mode idle) = 0x0123456789abcdef"
  "ml (ex_sw mode idle) = (if mode = LSW_LEARN then Some [] else None)"
  "action_normal (ex_sw mode idle) = (mode = LSW_NORMAL)"
  "default_queue (ex_sw mode idle) = 3"
  "queue_numbers (ex_sw mode idle) = [''eth0'']"
  by (simp_all add: ex_defs handshake_defs ofp_consts mac_learning_create_def)

lemma ex_sw_queue_id:
  "get_queue_id (ex_sw mode idle) p = (if p = 5 then 7 else 3)"
  by (simp add: ex_defs handshake_defs ofp_consts get_queue_id_def hmap_ports_def
      List.map_filter_simps)

subsection \<open>Dispatch\<close>

text \<open>
  C9. A message of type echo-request, features-reply, packet-in or flow-removed whose size
  is below the minimum of its type in the dispatch table is dropped: the session is
  unchanged and nothing is sent. This is for a session that knows its datapath id, or a
  message of type echo-request or features-reply, for which the resend of the features
  request does not come first.
\<close>

theorem short_message_dropped:
  assumes "(oh_type msg = OFPT_ECHO_REQUEST \<and> msg_size msg < sizeof_ofp_header)
         \<or> (oh_type msg = OFPT_FEATURES_REPLY \<and> msg_size msg < sizeof_ofp_switch_features)
         \<or> (oh_type msg = OFPT_PACKET_IN \<and> msg_size msg < offsetof_ofp_packet_in_data)
         \<or> (oh_type msg = OFPT_FLOW_REMOVED \<and> msg_size msg < sizeof_ofp_flow_removed)"
    and "datapath_id sw \<noteq> 0 \<or> oh_type msg = OFPT_ECHO_REQUEST
         \<or> oh_type msg = OFPT_FEATURES_REPLY"
  shows "lswitch_process_packet fx sw msg now = (sw, [])"
  using assms
  by (auto simp: lswitch_process_packet_def processors_def ofp_consts)

theorem short_message_dropped_witness:
  "oh_type (ex_msg\<lparr>oh_type := OFPT_PACKET_IN, msg_size := 10\<rparr>) = OFPT_PACKET_IN
   \<and> msg_size (ex_msg\<lparr>oh_type := OFPT_PACKET_IN, msg_size := 10\<rparr>)
       < offsetof_ofp_packet_in_data
   \<and> datapath_id (ex_sw LSW_LEARN 60) \<noteq> 0
   \<and> lswitch_process_packet (ex_fx 1 2) (ex_sw LSW_LEARN 60)
        (ex_msg\<lparr>oh_type := OFPT_PACKET_IN, msg_size := 10\<rparr>) 7 = (ex_sw LSW_LEARN 60, [])"
  using short_message_dropped
    [of "ex_msg\<lparr>oh_type := OFPT_PACKET_IN, msg_size := 10\<rparr>" "ex_sw LSW_LEARN 60" "ex_fx 1 2" 7]
  by (simp add: ofp_consts ex_sw_fields)

lemma ex_pkt: "pkt_of (ex_packet_in p b) = [0xca, 0xfe]"
  by (simp add: pkt_of_def ex_defs ofp_consts)

lemma ex_packet_in_fields:
  "opi_reason (ex_packet_in p b) = OFPR_NO_MATCH"
  "opi_in_port (ex_packet_in p b) = p"
  "opi_buffer_id (ex_packet_in p b) = b"
  "oh_type (ex_packet_in p b) = OFPT_PACKET_IN"
  "msg_size (ex_packet_in p b) = 20"
  by (simp_all add: ex_defs)

lemma ex_flow:
  "flow_extract (ex_fx s d) pkt p =
     \<lparr>in_port = p, dl_src = s, dl_dst = d, dl_vlan = 0, l3_l4 = pkt\<rparr>"
  by (simp add: flow_extract_def ex_fx_def)

lemmas mac_defs =
  mac_learning_learn_def mac_learning_lookup_def eth_addr_is_multicast_def
  eth_addr_is_zero_def me_has_key_def me_locked_def MAX_ENTRIES_def
  AGE_HARD_def

lemma ex_sw2_fields:
  "max_idle ex_sw2 = 60"
  "datapath_id ex_sw2 = 0x0123456789abcdef"
  "ml ex_sw2 = Some [\<lparr>me_mac = 0x66778899aabb, me_vlan = 0, me_port = 2, me_learned_ts = 7,
                       me_used_ts = 7, me_lock = None\<rparr>]"
  "action_normal ex_sw2 = False"
  "default_queue ex_sw2 = 3"
  "queue_numbers ex_sw2 = [''eth0'']"
  by (simp_all add: ex_sw2_def process_packet_in_state ex_packet_in_fields ex_flow ex_sw_fields
       learn_source_def mac_defs)

lemma ex_sw2_queue_id: "get_queue_id ex_sw2 p = (if p = 5 then 7 else 3)"
  by (simp add: ex_sw2_def process_packet_in_state ex_packet_in_fields ex_sw_queue_id)


lemma ex_sw2_choose:
  "fst (lswitch_choose_destination ex_sw2
          \<lparr>in_port = 5, dl_src = 0x001122334455, dl_dst = 0x66778899aabb, dl_vlan = 0,
           l3_l4 = pkt\<rparr> 9) = 2"
  by (simp add: lswitch_choose_destination_def learn_source_def ex_sw2_fields Let_def
       mac_defs eth_addr_is_reserved_def use_normal_def ofp_consts)

lemma ex_sw2_out:
  "snd (process_packet_in (ex_fx 0x001122334455 0x66778899aabb) ex_sw2
          (ex_packet_in 5 UINT32_MAX) 9)
   = [AddFlow \<lparr>in_port = 5, dl_src = 0x001122334455, dl_dst = 0x66778899aabb, dl_vlan = 0,
               l3_l4 = [0xca, 0xfe]\<rparr>
        UINT32_MAX 60 [OFPAT_ENQUEUE 2 7] (wildcards ex_sw2),
      PacketOut [0xca, 0xfe] UINT32_MAX 5 [OFPAT_ENQUEUE 2 7]]"
  by (simp add: process_packet_in_out ex_packet_in_fields ex_flow ex_pkt ex_sw2_choose Let_def
        ex_sw2_queue_id ex_sw2_fields make_actions_def ofp_consts)

lemma lswitch_create_mode: "lswitch_mode_of (fst (lswitch_create cfg now)) = cfg_mode cfg"
  by (cases "cfg_mode cfg")
     (simp_all add: lswitch_mode_of_def lswitch_create_def send_features_request_def Let_def)

subsection \<open>The packet-in handler\<close>

text \<open>
  C6. Every message the handler of a packet-in sends carries this action list: empty when
  the chosen port is NONE; one OUTPUT to the chosen port when the queue is the sentinel
  NONE (\<open>UINT32_MAX\<close>) or the chosen port is \<open>OFPP_MAX\<close> or above; one ENQUEUE to
  the chosen port and the queue otherwise.
\<close>

theorem packet_in_action_list:
  assumes "m \<in> set (snd (process_packet_in fx sw opi now))"
    and "out_port = fst (lswitch_choose_destination sw
            (flow_extract fx (pkt_of opi) (opi_in_port opi)) now)"
    and "qid = get_queue_id sw (opi_in_port opi)"
  shows "out_actions m =
           (if out_port = OFPP_NONE then []
            else if qid = UINT32_MAX \<or> OFPP_MAX \<le> out_port then [OFPAT_OUTPUT out_port]
            else [OFPAT_ENQUEUE out_port qid])"
  using assms
  by (auto simp: process_packet_in_out Let_def make_actions_def split: if_splits)

theorem packet_in_action_list_witness:
  "PacketOut [0xca, 0xfe] UINT32_MAX 5 [OFPAT_ENQUEUE 2 7]
     \<in> set (snd (process_packet_in (ex_fx 0x001122334455 0x66778899aabb) ex_sw2
                  (ex_packet_in 5 UINT32_MAX) 9))
   \<and> fst (lswitch_choose_destination ex_sw2
            (flow_extract (ex_fx 0x001122334455 0x66778899aabb)
               (pkt_of (ex_packet_in 5 UINT32_MAX))
               (opi_in_port (ex_packet_in 5 UINT32_MAX))) 9) = 2
   \<and> get_queue_id ex_sw2 (opi_in_port (ex_packet_in 5 UINT32_MAX)) = 7
   \<and> out_actions (PacketOut [0xca, 0xfe] UINT32_MAX 5 [OFPAT_ENQUEUE 2 7]) =
       (if (2 :: 16 word) = OFPP_NONE then []
        else if (7 :: 32 word) = UINT32_MAX \<or> OFPP_MAX \<le> 2 then [OFPAT_OUTPUT 2]
        else [OFPAT_ENQUEUE 2 7])"
proof -
  let ?m = "PacketOut [0xca, 0xfe] UINT32_MAX 5 [OFPAT_ENQUEUE 2 7]"
  let ?fx = "ex_fx 0x001122334455 0x66778899aabb"
  let ?opi = "ex_packet_in 5 UINT32_MAX"
  have m: "?m \<in> set (snd (process_packet_in ?fx ex_sw2 ?opi 9))"
    by (simp add: ex_sw2_out)
  have p: "2 = fst (lswitch_choose_destination ex_sw2
                     (flow_extract ?fx (pkt_of ?opi) (opi_in_port ?opi)) 9)"
    by (simp add: ex_sw2_choose ex_packet_in_fields ex_flow ex_pkt)
  have q: "7 = get_queue_id ex_sw2 (opi_in_port ?opi)"
    by (simp add: ex_sw2_queue_id ex_packet_in_fields)
  show ?thesis
    using packet_in_action_list [OF m p q] m p [symmetric] q [symmetric] by blast
qed

text \<open>
  C3, as amended. A packet-in with reason NO_MATCH that reaches its handler (the session
  knows its datapath id, the message has the minimum size) makes the session send a flow-mod
  if and only if \<open>max_idle\<close> is not negative and the mode is not learn or the chosen
  port is not FLOOD. A flow-mod that is sent is an ADD with the wildcards of the session,
  and with the idle timeout of the session when that fits the 16-bit field of the flow-mod
  (\<open>max_idle\<close> is at most 65535).
\<close>

theorem flow_mod_installed:
  assumes "datapath_id sw \<noteq> 0"
    and "oh_type msg = OFPT_PACKET_IN"
    and "offsetof_ofp_packet_in_data \<le> msg_size msg"
    and "opi_reason msg = OFPR_NO_MATCH"
    and "out_port = fst (lswitch_choose_destination sw
            (flow_extract fx (pkt_of msg) (opi_in_port msg)) now)"
  shows "((\<exists>m \<in> set (snd (lswitch_process_packet fx sw msg now)).
             ofp_out_type m = OFPT_FLOW_MOD)
          \<longleftrightarrow> 0 \<le> max_idle sw \<and> (lswitch_mode_of sw \<noteq> LSW_LEARN \<or> out_port \<noteq> OFPP_FLOOD))
       \<and> (\<forall>m \<in> set (snd (lswitch_process_packet fx sw msg now)).
             ofp_out_type m = OFPT_FLOW_MOD \<longrightarrow>
               (\<exists>fl b t a. m = AddFlow fl b t a (wildcards sw)
                  \<and> (max_idle sw \<le> 65535 \<longrightarrow> uint t = max_idle sw)))"
proof -
  have mode: "(lswitch_mode_of sw \<noteq> LSW_LEARN) = (ml sw = None)"
    by (simp add: lswitch_mode_of_def)
  have fits: "uint (word_of_int (max_idle sw) :: 16 word) = max_idle sw"
    if "0 \<le> max_idle sw" "max_idle sw \<le> 65535"
    using that by (simp add: uint_word_of_int)
  have "lswitch_process_packet fx sw msg now = process_packet_in fx sw msg now"
    using assms(1-3) by (simp add: dispatch_packet_in)
  then show ?thesis
    using assms(4,5) fits unfolding mode
    by (auto simp: process_packet_in_out Let_def OFPT_FLOW_MOD_def OFPT_PACKET_OUT_def
          split: if_splits)
qed

theorem flow_mod_installed_witness:
  "datapath_id ex_sw2 \<noteq> 0
   \<and> oh_type (ex_packet_in 5 UINT32_MAX) = OFPT_PACKET_IN
   \<and> offsetof_ofp_packet_in_data \<le> msg_size (ex_packet_in 5 UINT32_MAX)
   \<and> opi_reason (ex_packet_in 5 UINT32_MAX) = OFPR_NO_MATCH
   \<and> fst (lswitch_choose_destination ex_sw2
            (flow_extract (ex_fx 0x001122334455 0x66778899aabb)
               (pkt_of (ex_packet_in 5 UINT32_MAX))
               (opi_in_port (ex_packet_in 5 UINT32_MAX))) 9) = 2
   \<and> (\<exists>m \<in> set (snd (lswitch_process_packet (ex_fx 0x001122334455 0x66778899aabb) ex_sw2
                        (ex_packet_in 5 UINT32_MAX) 9)).
         ofp_out_type m = OFPT_FLOW_MOD)
   \<and> 0 \<le> max_idle ex_sw2 \<and> max_idle ex_sw2 \<le> 65535 \<and> (2 :: 16 word) \<noteq> OFPP_FLOOD"
  using flow_mod_installed
    [of ex_sw2 "ex_packet_in 5 UINT32_MAX" 2 "ex_fx 0x001122334455 0x66778899aabb" 9]
  by (simp add: ex_sw2_fields ex_packet_in_fields ex_sw2_choose ex_flow ex_pkt ofp_consts)

text \<open>
  C3 as stated fails for the idle timeout: a hub session with \<open>max_idle\<close> 65596 sends
  its flow-mod with the idle timeout 60.
\<close>

theorem idle_timeout_counterexample:
  "max_idle (ex_sw LSW_FLOOD 65596) = 65596
   \<and> datapath_id (ex_sw LSW_FLOOD 65596) = 0x0123456789abcdef
   \<and> snd (lswitch_process_packet (ex_fx 0x001122334455 0x66778899aabb)
            (ex_sw LSW_FLOOD 65596) (ex_packet_in 5 UINT32_MAX) 9)
       = [AddFlow \<lparr>in_port = 5, dl_src = 0x001122334455, dl_dst = 0x66778899aabb, dl_vlan = 0,
                   l3_l4 = [0xca, 0xfe]\<rparr>
            UINT32_MAX 60 [OFPAT_OUTPUT OFPP_FLOOD] (wildcards (ex_sw LSW_FLOOD 65596)),
          PacketOut [0xca, 0xfe] UINT32_MAX 5 [OFPAT_OUTPUT OFPP_FLOOD]]"
proof -
  have "lswitch_process_packet (ex_fx 0x001122334455 0x66778899aabb)
            (ex_sw LSW_FLOOD 65596) (ex_packet_in 5 UINT32_MAX) 9
        = process_packet_in (ex_fx 0x001122334455 0x66778899aabb)
            (ex_sw LSW_FLOOD 65596) (ex_packet_in 5 UINT32_MAX) 9"
    by (simp add: dispatch_packet_in ex_sw_fields ex_packet_in_fields ofp_consts)
  then show ?thesis
    by (simp add: process_packet_in_out ex_packet_in_fields ex_flow ex_pkt Let_def
          lswitch_choose_destination_def learn_source_def use_normal_def
          eth_addr_is_reserved_def make_actions_def ex_sw_fields ex_sw_queue_id ofp_consts)
qed



subsection \<open>Features replies\<close>

lemma resolve_port_datapath_id [simp]:
  "datapath_id (resolve_port sw opp) = datapath_id sw"
  by (simp add: resolve_port_def split: option.splits)

lemma foldl_resolve_port_datapath_id [simp]:
  "datapath_id (foldl resolve_port sw ps) = datapath_id sw"
  by (induction ps arbitrary: sw) simp_all

lemma resolve_port_update_datapath_id:
  "resolve_port (sw\<lparr>datapath_id := d\<rparr>) opp = (resolve_port sw opp)\<lparr>datapath_id := d\<rparr>"
  by (simp add: resolve_port_def split: option.splits)

lemma foldl_resolve_port_update_datapath_id:
  "foldl resolve_port (sw\<lparr>datapath_id := d\<rparr>) ps = (foldl resolve_port sw ps)\<lparr>datapath_id := d\<rparr>"
  by (induction ps arbitrary: sw) (simp_all add: resolve_port_update_datapath_id)

lemma resolve_port_keeps:
  "resolved sw name lp \<Longrightarrow> resolved (resolve_port sw opp) name lp"
  by (auto simp: resolved_def resolve_port_def split: option.splits)

lemma foldl_resolve_port_keeps:
  "resolved sw name lp \<Longrightarrow> resolved (foldl resolve_port sw ps) name lp"
  by (induction ps arbitrary: sw) (simp_all add: resolve_port_keeps)

lemma resolve_port_other:
  "opp_name_str opp \<noteq> name \<Longrightarrow> queue_names (resolve_port sw opp) name = queue_names sw name"
  by (simp add: resolve_port_def split: option.splits)

lemma resolve_port_resolves:
  "queue_names sw (opp_name_str opp) = Some lp \<Longrightarrow> hmap_node_null lp \<Longrightarrow>
   resolved (resolve_port sw opp) (opp_name_str opp)
     (lp\<lparr>port_no := Some (opp_port_no opp), hmap_node_null := False\<rparr>)"
  by (simp add: resolved_def resolve_port_def)

lemma foldl_resolve_port_resolves:
  assumes "opp \<in> set ps" "queue_names sw (opp_name_str opp) = Some lp" "hmap_node_null lp"
  shows "\<exists>opp' \<in> set ps. opp_name_str opp' = opp_name_str opp \<and>
           resolved (foldl resolve_port sw ps) (opp_name_str opp)
             (lp\<lparr>port_no := Some (opp_port_no opp'), hmap_node_null := False\<rparr>)"
  using assms
proof (induction ps arbitrary: sw)
  case Nil
  then show ?case by simp
next
  case (Cons p ps)
  show ?case
  proof (cases "opp_name_str p = opp_name_str opp")
    case True
    then have "resolved (resolve_port sw p) (opp_name_str opp)
                 (lp\<lparr>port_no := Some (opp_port_no p), hmap_node_null := False\<rparr>)"
      using resolve_port_resolves [of sw p lp] Cons.prems by simp
    then have "resolved (foldl resolve_port (resolve_port sw p) ps) (opp_name_str opp)
                 (lp\<lparr>port_no := Some (opp_port_no p), hmap_node_null := False\<rparr>)"
      by (rule foldl_resolve_port_keeps)
    with True show ?thesis by auto
  next
    case False
    then have in_ps: "opp \<in> set ps" using Cons.prems(1) by auto
    have "queue_names (resolve_port sw p) (opp_name_str opp) = Some lp"
      using False Cons.prems(2) by (simp add: resolve_port_other)
    from Cons.IH [OF in_ps this Cons.prems(3)] show ?thesis by auto
  qed
qed

lemma dispatch_features_reply:
  assumes "oh_type msg = OFPT_FEATURES_REPLY"
  shows "lswitch_process_packet fx sw msg now =
           (if msg_size msg < sizeof_ofp_switch_features then (sw, [])
            else (process_switch_features sw msg, []))"
  using assms by (simp add: lswitch_process_packet_def processors_def ofp_consts)

text \<open>
  C10. A features reply that is dispatched and passes the check of its port array, with
  datapath id 0, sets the datapath id of the session to 0, whatever it was. All the same,
  each binding that was unresolved and whose name one of the listed ports carries is
  resolved afterwards, with the port number of a listed port of that name; and the two
  queue tables after the reply are the same for every datapath id the reply could carry.
\<close>

theorem features_reply_zero_datapath_id:
  assumes "oh_type osf = OFPT_FEATURES_REPLY"
    and "sizeof_ofp_switch_features \<le> msg_size osf"
    and "check_ofp_message_array osf sizeof_ofp_switch_features sizeof_ofp_phy_port = Some n"
    and "osf_datapath_id osf = 0"
    and "sw' = fst (lswitch_process_packet fx sw osf now)"
  shows "datapath_id sw' = 0
       \<and> (\<forall>opp \<in> set (take n (osf_ports osf)). \<forall>lp.
            queue_names sw (opp_name_str opp) = Some lp \<and> hmap_node_null lp \<longrightarrow>
              (\<exists>opp' \<in> set (take n (osf_ports osf)).
                 opp_name_str opp' = opp_name_str opp \<and>
                 resolved sw' (opp_name_str opp)
                   (lp\<lparr>port_no := Some (opp_port_no opp'), hmap_node_null := False\<rparr>)))
       \<and> (\<forall>d. queue_names (fst (lswitch_process_packet fx sw (osf\<lparr>osf_datapath_id := d\<rparr>) now))
                 = queue_names sw'
              \<and> queue_numbers (fst (lswitch_process_packet fx sw (osf\<lparr>osf_datapath_id := d\<rparr>) now))
                 = queue_numbers sw')"
proof -
  have chk: "check_ofp_message_array (osf\<lparr>osf_datapath_id := d\<rparr>) a b = check_ofp_message_array osf a b"
    for d a b
    by (simp add: check_ofp_message_array_def)
  have sw': "sw' = foldl resolve_port (sw\<lparr>datapath_id := 0\<rparr>) (take n (osf_ports osf))"
    using assms by (simp add: dispatch_features_reply process_switch_features_def)
  have other: "fst (lswitch_process_packet fx sw (osf\<lparr>osf_datapath_id := d\<rparr>) now)
                 = foldl resolve_port (sw\<lparr>datapath_id := d\<rparr>) (take n (osf_ports osf))" for d
    using assms(1-3) by (simp add: dispatch_features_reply process_switch_features_def chk)
  have 1: "datapath_id sw' = 0"
    by (simp add: sw')
  have 2: "\<exists>opp' \<in> set (take n (osf_ports osf)).
             opp_name_str opp' = opp_name_str opp \<and>
             resolved sw' (opp_name_str opp)
               (lp\<lparr>port_no := Some (opp_port_no opp'), hmap_node_null := False\<rparr>)"
    if "opp \<in> set (take n (osf_ports osf))" "queue_names sw (opp_name_str opp) = Some lp"
       "hmap_node_null lp" for opp lp
    unfolding sw'
    using foldl_resolve_port_resolves [of opp "take n (osf_ports osf)" "sw\<lparr>datapath_id := 0\<rparr>" lp] that
    by simp
  have 3: "queue_names (fst (lswitch_process_packet fx sw (osf\<lparr>osf_datapath_id := d\<rparr>) now))
                 = queue_names sw'
         \<and> queue_numbers (fst (lswitch_process_packet fx sw (osf\<lparr>osf_datapath_id := d\<rparr>) now))
                 = queue_numbers sw'" for d
    by (simp add: other sw' foldl_resolve_port_update_datapath_id)
  from 1 2 3 show ?thesis by blast
qed

lemma ex_sw_names:
  "queue_names (ex_sw mode idle) ''eth1'' = Some \<lparr>port_no = None, queue_id = 8, hmap_node_null = True\<rparr>"
  "queue_names (ex_sw mode idle) ''eth0'' = Some \<lparr>port_no = Some 5, queue_id = 7, hmap_node_null = False\<rparr>"
  by (simp_all add: ex_defs handshake_defs ofp_consts)

lemma ex_reply0_fields:
  "oh_type ex_reply0 = OFPT_FEATURES_REPLY"
  "msg_size ex_reply0 = 80"
  "osf_datapath_id ex_reply0 = 0"
  "osf_ports ex_reply0 = [\<lparr>opp_port_no = 6, opp_name = ''eth1''\<rparr>]"
  "check_ofp_message_array ex_reply0 sizeof_ofp_switch_features sizeof_ofp_phy_port = Some 1"
  by (simp_all add: ex_reply0_def ex_defs check_ofp_message_array_def ofp_consts)

theorem features_reply_zero_datapath_id_witness:
  "oh_type ex_reply0 = OFPT_FEATURES_REPLY
   \<and> sizeof_ofp_switch_features \<le> msg_size ex_reply0
   \<and> check_ofp_message_array ex_reply0 sizeof_ofp_switch_features sizeof_ofp_phy_port = Some 1
   \<and> osf_datapath_id ex_reply0 = 0
   \<and> datapath_id (ex_sw LSW_LEARN 60) = 0x0123456789abcdef
   \<and> queue_names (ex_sw LSW_LEARN 60) ''eth1''
       = Some \<lparr>port_no = None, queue_id = 8, hmap_node_null = True\<rparr>
   \<and> datapath_id (fst (lswitch_process_packet (ex_fx 1 2) (ex_sw LSW_LEARN 60) ex_reply0 9)) = 0
   \<and> resolved (fst (lswitch_process_packet (ex_fx 1 2) (ex_sw LSW_LEARN 60) ex_reply0 9))
        ''eth1'' \<lparr>port_no = Some 6, queue_id = 8, hmap_node_null = False\<rparr>"
proof -
  let ?sw' = "fst (lswitch_process_packet (ex_fx 1 2) (ex_sw LSW_LEARN 60) ex_reply0 9)"
  let ?opp = "\<lparr>opp_port_no = 6, opp_name = ''eth1''\<rparr>"
  have name: "opp_name_str ?opp = ''eth1''"
    by (simp add: opp_name_str_def ofp_consts)
  have size: "sizeof_ofp_switch_features \<le> msg_size ex_reply0"
    by (simp add: ex_reply0_fields ofp_consts)
  note inst = features_reply_zero_datapath_id
    [OF ex_reply0_fields(1) size ex_reply0_fields(5) ex_reply0_fields(3) refl,
     of "ex_fx 1 2" "ex_sw LSW_LEARN 60" 9]
  from inst have d: "datapath_id ?sw' = 0" by blast
  from inst have "\<forall>opp \<in> set (take 1 (osf_ports ex_reply0)). \<forall>lp.
            queue_names (ex_sw LSW_LEARN 60) (opp_name_str opp) = Some lp \<and> hmap_node_null lp \<longrightarrow>
              (\<exists>opp' \<in> set (take 1 (osf_ports ex_reply0)).
                 opp_name_str opp' = opp_name_str opp \<and>
                 resolved ?sw' (opp_name_str opp)
                   (lp\<lparr>port_no := Some (opp_port_no opp'), hmap_node_null := False\<rparr>))"
    by blast
  then have r: "resolved ?sw' ''eth1'' \<lparr>port_no = Some 6, queue_id = 8, hmap_node_null = False\<rparr>"
    by (simp add: ex_reply0_fields name ex_sw_names)
  show ?thesis
    using d r size by (simp add: ex_reply0_fields ex_sw_names ex_sw_fields)
qed

subsection \<open>The index of the queue bindings by port number\<close>

lemma map_filter_queue_names:
  "\<forall>name \<in> set xs. queue_names sw name \<noteq> None \<Longrightarrow>
   map port_no (List.map_filter (queue_names sw) xs) = map (port_no_of sw) xs"
  by (induction xs) (auto simp: List.map_filter_simps port_no_of_def split: option.splits)

lemma hmap_port_numbers:
  "index_inv sw \<Longrightarrow> map port_no (hmap_ports sw) = map (port_no_of sw) (queue_numbers sw)"
  unfolding hmap_ports_def
  by (rule map_filter_queue_names) (auto simp: index_inv_def split: option.splits)

lemma resolve_port_cases:
  obtains (same) "resolve_port sw opp = sw"
  | (new) lp where "queue_names sw (opp_name_str opp) = Some lp" "hmap_node_null lp"
      "resolve_port sw opp =
         sw\<lparr>queue_names := (queue_names sw)(opp_name_str opp \<mapsto>
                lp\<lparr>port_no := Some (opp_port_no opp), hmap_node_null := False\<rparr>),
            queue_numbers := opp_name_str opp # queue_numbers sw\<rparr>"
proof (cases "queue_names sw (opp_name_str opp)")
  case None
  then have "resolve_port sw opp = sw" by (simp add: resolve_port_def)
  then show ?thesis by (rule same)
next
  case (Some lp)
  show ?thesis
  proof (cases "hmap_node_null lp")
    case True
    with Some show ?thesis by (intro new [of lp]) (simp_all add: resolve_port_def)
  next
    case False
    with Some have "resolve_port sw opp = sw" by (simp add: resolve_port_def)
    then show ?thesis by (rule same)
  qed
qed

lemma resolve_port_index_inv:
  assumes "index_inv sw"
  shows "index_inv (resolve_port sw opp)"
proof (cases rule: resolve_port_cases [of sw opp])
  case same
  with assms show ?thesis by simp
next
  case (new lp)
  have "opp_name_str opp \<notin> set (queue_numbers sw)"
    using assms new(1,2) by (auto simp: index_inv_def split: option.splits)
  with assms show ?thesis
    by (auto simp: new(3) index_inv_def split: option.splits)
qed

lemma foldl_resolve_port_index_inv:
  "index_inv sw \<Longrightarrow> index_inv (foldl resolve_port sw ps)"
  by (induction ps arbitrary: sw) (simp_all add: resolve_port_index_inv)

lemma port_numbers_agreeD:
  assumes "port_numbers_agree sw ports"
  shows "\<And>p q. p \<in> set ports \<Longrightarrow> q \<in> set ports \<Longrightarrow> opp_port_no p = opp_port_no q
           \<Longrightarrow> opp_name_str p = opp_name_str q"
    and "\<And>p name. p \<in> set ports \<Longrightarrow> name \<in> set (queue_numbers sw)
           \<Longrightarrow> port_no_of sw name = Some (opp_port_no p) \<Longrightarrow> name = opp_name_str p"
  using assms unfolding port_numbers_agree_def by blast+

lemma port_numbers_agree_tl:
  "port_numbers_agree sw (opp # ps) \<Longrightarrow> port_numbers_agree sw ps"
  unfolding port_numbers_agree_def by (blast intro: list.set_intros(2))

lemma resolve_port_distinct:
  assumes inv: "index_inv sw"
    and dist: "distinct (map (port_no_of sw) (queue_numbers sw))"
    and agree: "port_numbers_agree sw (opp # ps)"
  shows "distinct (map (port_no_of (resolve_port sw opp)) (queue_numbers (resolve_port sw opp)))
         \<and> port_numbers_agree (resolve_port sw opp) ps"
proof (cases rule: resolve_port_cases [of sw opp])
  case same
  with dist port_numbers_agree_tl [OF agree] show ?thesis by simp
next
  case (new lp)
  let ?n = "opp_name_str opp"
  let ?sw' = "resolve_port sw opp"
  note same_number = port_numbers_agreeD(1) [OF agree]
  note same_name = port_numbers_agreeD(2) [OF agree]
  have "case queue_names sw ?n of None \<Rightarrow> False | Some lp \<Rightarrow> \<not> hmap_node_null lp"
    if "?n \<in> set (queue_numbers sw)"
    using inv that unfolding index_inv_def by blast
  then have fresh: "?n \<notin> set (queue_numbers sw)"
    using new(1,2) by auto
  have names: "queue_names ?sw' name = queue_names sw name" if "name \<noteq> ?n" for name
    using that by (simp add: new(3))
  have old: "port_no_of ?sw' name = port_no_of sw name" if "name \<in> set (queue_numbers sw)" for name
  proof -
    from that fresh have "name \<noteq> ?n" by blast
    then show ?thesis by (simp add: port_no_of_def names)
  qed
  have here: "port_no_of ?sw' ?n = Some (opp_port_no opp)"
    by (simp add: new(3) port_no_of_def)
  have qn: "queue_numbers ?sw' = ?n # queue_numbers sw"
    by (simp add: new(3))
  have unused: "Some (opp_port_no opp) \<notin> set (map (port_no_of sw) (queue_numbers sw))"
  proof
    assume "Some (opp_port_no opp) \<in> set (map (port_no_of sw) (queue_numbers sw))"
    then obtain name where name: "name \<in> set (queue_numbers sw)"
      and "port_no_of sw name = Some (opp_port_no opp)"
      by auto
    then have "name = ?n" by (intro same_name) simp_all
    with name fresh show False by simp
  qed
  have map_old: "map (port_no_of ?sw') (queue_numbers sw) = map (port_no_of sw) (queue_numbers sw)"
    using old by simp
  have d: "distinct (map (port_no_of ?sw') (queue_numbers ?sw'))"
    using dist unused by (simp only: qn list.map here map_old distinct.simps) simp
  have a: "port_numbers_agree ?sw' ps"
    unfolding port_numbers_agree_def
  proof (intro conjI ballI impI)
    fix p q assume "p \<in> set ps" "q \<in> set ps" "opp_port_no p = opp_port_no q"
    then show "opp_name_str p = opp_name_str q"
      by (intro same_number) simp_all
  next
    fix p name
    assume p: "p \<in> set ps" and name: "name \<in> set (queue_numbers ?sw')"
      and eq: "port_no_of ?sw' name = Some (opp_port_no p)"
    show "name = opp_name_str p"
    proof (cases "name = ?n")
      case True
      with eq here have "opp_port_no opp = opp_port_no p" by simp
      then have "opp_name_str opp = opp_name_str p"
        using p by (intro same_number) simp_all
      with True show ?thesis by simp
    next
      case False
      with name qn have in_old: "name \<in> set (queue_numbers sw)" by simp
      with eq old have "port_no_of sw name = Some (opp_port_no p)" by simp
      with p in_old show ?thesis by (intro same_name) simp_all
    qed
  qed
  from d a show ?thesis ..
qed

lemma foldl_resolve_port_distinct:
  assumes "index_inv sw" "distinct (map (port_no_of sw) (queue_numbers sw))"
    "port_numbers_agree sw ps"
  shows "distinct (map (port_no_of (foldl resolve_port sw ps))
                       (queue_numbers (foldl resolve_port sw ps)))"
  using assms
proof (induction ps arbitrary: sw)
  case Nil
  then show ?case by simp
next
  case (Cons p ps)
  from resolve_port_distinct [OF Cons.prems]
  have "distinct (map (port_no_of (resolve_port sw p)) (queue_numbers (resolve_port sw p)))"
    and "port_numbers_agree (resolve_port sw p) ps" by simp_all
  with Cons.IH [OF resolve_port_index_inv [OF Cons.prems(1)]] show ?case by simp
qed

lemma process_switch_features_queues:
  "queue_names (process_switch_features sw osf) =
     queue_names (foldl resolve_port sw (listed_ports osf))"
  "queue_numbers (process_switch_features sw osf) =
     queue_numbers (foldl resolve_port sw (listed_ports osf))"
  by (simp_all add: process_switch_features_def listed_ports_def
        foldl_resolve_port_update_datapath_id split: option.splits)

lemma index_inv_cong:
  "queue_names a = queue_names b \<Longrightarrow> queue_numbers a = queue_numbers b \<Longrightarrow>
   index_inv a = index_inv b"
  by (simp add: index_inv_def)

lemma hmap_ports_cong:
  "queue_names a = queue_names b \<Longrightarrow> queue_numbers a = queue_numbers b \<Longrightarrow>
   hmap_ports a = hmap_ports b"
  by (simp add: hmap_ports_def)

lemma send_features_request_queues [simp]:
  "queue_names (fst (send_features_request sw now)) = queue_names sw"
  "queue_numbers (fst (send_features_request sw now)) = queue_numbers sw"
  by (simp_all add: send_features_request_def)

lemma process_packet_in_queues [simp]:
  "queue_names (fst (process_packet_in fx sw opi now)) = queue_names sw"
  "queue_numbers (fst (process_packet_in fx sw opi now)) = queue_numbers sw"
  by (simp_all add: process_packet_in_state)

lemma lswitch_process_packet_queues:
  "(queue_names (fst (lswitch_process_packet fx sw msg now)) = queue_names sw
    \<and> queue_numbers (fst (lswitch_process_packet fx sw msg now)) = queue_numbers sw)
   \<or> (queue_names (fst (lswitch_process_packet fx sw msg now))
         = queue_names (foldl resolve_port sw (listed_ports msg))
      \<and> queue_numbers (fst (lswitch_process_packet fx sw msg now))
         = queue_numbers (foldl resolve_port sw (listed_ports msg)))"
proof (cases rule: lswitch_process_packet_cases [of fx sw msg now])
  case resend
  then show ?thesis by simp
next
  case drop
  then show ?thesis by simp
next
  case echo
  then show ?thesis by (simp add: process_echo_request_def)
next
  case features
  then show ?thesis by (simp add: process_switch_features_queues)
next
  case packet_in
  then show ?thesis by simp
qed

lemma lswitch_process_packet_index_inv:
  assumes "index_inv sw"
  shows "index_inv (fst (lswitch_process_packet fx sw msg now))"
  using lswitch_process_packet_queues [of fx sw msg now]
proof
  assume "queue_names (fst (lswitch_process_packet fx sw msg now)) = queue_names sw
    \<and> queue_numbers (fst (lswitch_process_packet fx sw msg now)) = queue_numbers sw"
  then show ?thesis using assms index_inv_cong by blast
next
  assume "queue_names (fst (lswitch_process_packet fx sw msg now))
         = queue_names (foldl resolve_port sw (listed_ports msg))
      \<and> queue_numbers (fst (lswitch_process_packet fx sw msg now))
         = queue_numbers (foldl resolve_port sw (listed_ports msg))"
  then show ?thesis
    using foldl_resolve_port_index_inv [OF assms, of "listed_ports msg"] index_inv_cong by blast
qed

lemma lswitch_process_all_index_inv:
  "index_inv sw \<Longrightarrow> index_inv (lswitch_process_all fx sw msgs)"
  by (induction fx sw msgs rule: lswitch_process_all.induct)
     (simp_all add: lswitch_process_packet_index_inv)

lemma lswitch_create_index_inv: "index_inv (fst (lswitch_create cfg now))"
  by (simp add: index_inv_def lswitch_create_def send_features_request_def Let_def)

text \<open>
  C8, as amended. In every state a session reaches from its creation by receiving
  messages, the hash map refers to each binding at most once, and only to bindings that have
  been resolved. The port numbers in the hash map stay pairwise different over a message
  when they were so before and the ports the message lists as a features reply agree with
  the hash map: no port number under two names, none that the hash map already holds under
  another name. The switch itself never compares port numbers.
\<close>

theorem queue_index_invariant:
  assumes "sw = lswitch_process_all fx (fst (lswitch_create cfg t0)) msgs"
  shows "index_inv sw
       \<and> (distinct (map port_no (hmap_ports sw)) \<and> port_numbers_agree sw (listed_ports osf)
            \<longrightarrow> distinct (map port_no (hmap_ports (fst (lswitch_process_packet fx sw osf now)))))"
proof -
  let ?sw' = "fst (lswitch_process_packet fx sw osf now)"
  have inv: "index_inv sw"
    unfolding assms by (rule lswitch_process_all_index_inv) (rule lswitch_create_index_inv)
  have inv': "index_inv ?sw'"
    using inv by (rule lswitch_process_packet_index_inv)
  have "distinct (map port_no (hmap_ports ?sw'))"
    if dist: "distinct (map port_no (hmap_ports sw))"
      and agree: "port_numbers_agree sw (listed_ports osf)"
    using lswitch_process_packet_queues [of fx sw osf now]
  proof
    assume "queue_names ?sw' = queue_names sw \<and> queue_numbers ?sw' = queue_numbers sw"
    then have "hmap_ports ?sw' = hmap_ports sw" by (intro hmap_ports_cong) simp_all
    with dist show ?thesis by simp
  next
    let ?r = "foldl resolve_port sw (listed_ports osf)"
    assume "queue_names ?sw' = queue_names ?r \<and> queue_numbers ?sw' = queue_numbers ?r"
    then have eq: "hmap_ports ?sw' = hmap_ports ?r" by (intro hmap_ports_cong) simp_all
    have "distinct (map (port_no_of sw) (queue_numbers sw))"
      using dist by (simp add: hmap_port_numbers [OF inv])
    from foldl_resolve_port_distinct [OF inv this agree]
    have "distinct (map port_no (hmap_ports ?r))"
      by (simp add: hmap_port_numbers [OF foldl_resolve_port_index_inv [OF inv]])
    with eq show ?thesis by simp
  qed
  with inv show ?thesis by blast
qed

lemma ex_features_reply_fields:
  "oh_type (ex_features_reply d ps) = OFPT_FEATURES_REPLY"
  "msg_size (ex_features_reply d ps) = 32 + 48 * length ps"
  "osf_datapath_id (ex_features_reply d ps) = d"
  "osf_ports (ex_features_reply d ps) = ps"
  by (simp_all add: ex_defs)

lemma ex_sw_reached:
  "lswitch_process_all fx (fst (lswitch_create (ex_cfg mode idle) 0))
     [(ex_features_reply 0x0123456789abcdef [\<lparr>opp_port_no = 5, opp_name = ''eth0''\<rparr>], now)]
   = ex_sw mode idle"
  by (simp add: dispatch_features_reply ex_features_reply_fields ex_sw_def ofp_consts)

lemma ex_sw_ports:
  "hmap_ports (ex_sw mode idle) = [\<lparr>port_no = Some 5, queue_id = 7, hmap_node_null = False\<rparr>]"
  by (simp add: hmap_ports_def ex_sw_fields ex_sw_names List.map_filter_simps)

lemma ex_sw_eth1:
  "hmap_ports (fst (lswitch_process_packet fx (ex_sw mode idle)
      (ex_features_reply d [\<lparr>opp_port_no = n, opp_name = ''eth1''\<rparr>]) now))
   = [\<lparr>port_no = Some n, queue_id = 8, hmap_node_null = False\<rparr>,
      \<lparr>port_no = Some 5, queue_id = 7, hmap_node_null = False\<rparr>]"
  by (simp add: dispatch_features_reply ex_features_reply_fields process_switch_features_def
        check_ofp_message_array_def resolve_port_def opp_name_str_def ex_sw_names ex_sw_fields
        hmap_ports_def List.map_filter_simps ofp_consts ex_features_reply_def ex_msg_def)

text \<open>
  C8 as stated fails: two features replies that report port 5 first as eth0 and then as
  eth1 leave two bindings with port number 5 in the hash map.
\<close>

theorem distinct_port_numbers_counterexample:
  "map port_no (hmap_ports
     (lswitch_process_all (ex_fx 1 2) (fst (lswitch_create (ex_cfg LSW_LEARN 60) 0))
        [(ex_features_reply 0x0123456789abcdef [\<lparr>opp_port_no = 5, opp_name = ''eth0''\<rparr>], 1),
         (ex_features_reply 0x0123456789abcdef [\<lparr>opp_port_no = 5, opp_name = ''eth1''\<rparr>], 2)]))
   = [Some 5, Some 5]"
proof -
  have "lswitch_process_all (ex_fx 1 2) (fst (lswitch_create (ex_cfg LSW_LEARN 60) 0))
        [(ex_features_reply 0x0123456789abcdef [\<lparr>opp_port_no = 5, opp_name = ''eth0''\<rparr>], 1),
         (ex_features_reply 0x0123456789abcdef [\<lparr>opp_port_no = 5, opp_name = ''eth1''\<rparr>], 2)]
      = fst (lswitch_process_packet (ex_fx 1 2) (ex_sw LSW_LEARN 60)
          (ex_features_reply 0x0123456789abcdef [\<lparr>opp_port_no = 5, opp_name = ''eth1''\<rparr>]) 2)"
    using ex_sw_reached [of "ex_fx 1 2" LSW_LEARN 60 1] by simp
  then show ?thesis by (simp add: ex_sw_eth1)
qed

theorem queue_index_invariant_witness:
  "ex_sw LSW_LEARN 60 =
     lswitch_process_all (ex_fx 1 2) (fst (lswitch_create (ex_cfg LSW_LEARN 60) 0))
       [(ex_features_reply 0x0123456789abcdef [\<lparr>opp_port_no = 5, opp_name = ''eth0''\<rparr>], 1)]
   \<and> index_inv (ex_sw LSW_LEARN 60)
   \<and> distinct (map port_no (hmap_ports (ex_sw LSW_LEARN 60)))
   \<and> port_numbers_agree (ex_sw LSW_LEARN 60) (listed_ports ex_reply0)
   \<and> distinct (map port_no (hmap_ports
        (fst (lswitch_process_packet (ex_fx 1 2) (ex_sw LSW_LEARN 60) ex_reply0 9))))"
proof -
  have reach: "ex_sw LSW_LEARN 60 =
     lswitch_process_all (ex_fx 1 2) (fst (lswitch_create (ex_cfg LSW_LEARN 60) 0))
       [(ex_features_reply 0x0123456789abcdef [\<lparr>opp_port_no = 5, opp_name = ''eth0''\<rparr>], 1)]"
    by (simp only: ex_sw_reached)
  have d: "distinct (map port_no (hmap_ports (ex_sw LSW_LEARN 60)))"
    by (simp add: ex_sw_ports)
  have l: "listed_ports ex_reply0 = [\<lparr>opp_port_no = 6, opp_name = ''eth1''\<rparr>]"
    by (simp add: listed_ports_def ex_reply0_fields)
  have a: "port_numbers_agree (ex_sw LSW_LEARN 60) (listed_ports ex_reply0)"
    by (simp add: l port_numbers_agree_def ex_sw_fields port_no_of_def ex_sw_names)
  from queue_index_invariant [OF reach, of ex_reply0 9] d a
  have "index_inv (ex_sw LSW_LEARN 60)"
    and "distinct (map port_no (hmap_ports
          (fst (lswitch_process_packet (ex_fx 1 2) (ex_sw LSW_LEARN 60) ex_reply0 9))))"
    by blast+
  with reach d a show ?thesis by blast
qed

subsection \<open>Sessions that do not know their datapath id\<close>

lemma unknown_step:
  assumes "datapath_id sw = 0" "m \<in> set (snd (lswitch_process_packet fx sw msg now))"
  shows "ofp_out_type m \<in> {OFPT_FEATURES_REQUEST, OFPT_SET_CONFIG, OFPT_ECHO_REPLY}"
proof -
  let ?r = "lswitch_process_packet fx sw msg now"
  consider (resend) "?r = send_features_request sw now"
    | (drop) "?r = (sw, [])"
    | (echo) "?r = process_echo_request sw msg"
    | (features) "?r = (process_switch_features sw msg, [])"
    using assms(1) unfolding lswitch_process_packet_unfold by presburger
  then show ?thesis
  proof cases
    case resend
    with assms(2) show ?thesis
      by (auto simp: send_features_request_def split: if_splits)
  next
    case drop
    with assms(2) show ?thesis by simp
  next
    case echo
    with assms(2) show ?thesis by (simp add: process_echo_request_def)
  next
    case features
    with assms(2) show ?thesis by simp
  qed
qed

lemma unknown_trace:
  "(d, m) \<in> set (lswitch_trace fx sw msgs) \<Longrightarrow> d = 0 \<Longrightarrow>
   ofp_out_type m \<in> {OFPT_FEATURES_REQUEST, OFPT_SET_CONFIG, OFPT_ECHO_REPLY}"
proof (induction fx sw msgs rule: lswitch_trace.induct)
  case (1 fx sw)
  then show ?case by simp
next
  case (2 fx sw msg now rest)
  obtain sw' out where step: "lswitch_process_packet fx sw msg now = (sw', out)"
    by (cases "lswitch_process_packet fx sw msg now")
  from "2.prems"(1) step
  consider (here) "d = datapath_id sw" "m \<in> set out"
    | (later) "(d, m) \<in> set (lswitch_trace fx sw' rest)"
    by auto
  then show ?case
  proof cases
    case here
    with "2.prems"(2) step unknown_step [of sw m fx msg now] show ?thesis by simp
  next
    case later
    with "2.IH" [OF step [symmetric] refl] "2.prems"(2) show ?thesis by simp
  qed
qed

lemma lswitch_create_out:
  "snd (lswitch_create cfg now) =
     [FeaturesRequest, SetConfig OFP_DEFAULT_MISS_SEND_LEN] @ map Clone (cfg_default_flows cfg)"
  by (simp add: lswitch_create_def send_features_request_def Let_def)

lemma lswitch_create_datapath_id: "datapath_id (fst (lswitch_create cfg now)) = 0"
  by (simp add: lswitch_create_def send_features_request_def Let_def)

text \<open>
  C1, as amended. Whatever messages a session receives, every message it sends in answer
  to one that arrived while its datapath id was 0 is a features request, a set-config or an
  echo reply: no flow-mod, no packet-out. At its creation a session, whose datapath id is 0,
  sends a features request, a set-config and then the default flows of its configuration as
  they are, whatever their types.
\<close>

theorem unknown_session_emissions:
  "(\<forall>(d, m) \<in> set (lswitch_trace fx sw msgs).
      d = 0 \<longrightarrow> ofp_out_type m \<in> {OFPT_FEATURES_REQUEST, OFPT_SET_CONFIG, OFPT_ECHO_REPLY})
   \<and> datapath_id (fst (lswitch_create cfg now)) = 0
   \<and> snd (lswitch_create cfg now) =
       [FeaturesRequest, SetConfig OFP_DEFAULT_MISS_SEND_LEN] @ map Clone (cfg_default_flows cfg)"
  using unknown_trace [of _ _ fx sw msgs]
  by (auto simp: lswitch_create_out lswitch_create_datapath_id)

lemma ex_create_fields:
  "datapath_id (fst (lswitch_create (ex_cfg mode idle) 0)) = 0"
  "last_features_request (fst (lswitch_create (ex_cfg mode idle) 0)) = 0"
  by (simp_all add: lswitch_create_def send_features_request_def Let_def ex_cfg_def)

lemma ex_trace:
  "lswitch_trace (ex_fx 1 2) (fst (lswitch_create (ex_cfg LSW_LEARN 60) 0))
     [(ex_packet_in 5 UINT32_MAX, 1), (ex_echo_request, 1)]
   = [(0, FeaturesRequest), (0, SetConfig OFP_DEFAULT_MISS_SEND_LEN), (0, EchoReply ex_echo_request)]"
  by (simp add: lswitch_process_packet_unfold ex_create_fields ex_packet_in_fields
        send_features_request_def ex_echo_request_def ex_msg_def process_echo_request_def
        ofp_consts)

theorem unknown_session_emissions_witness:
  "(0, EchoReply ex_echo_request)
     \<in> set (lswitch_trace (ex_fx 1 2) (fst (lswitch_create (ex_cfg LSW_LEARN 60) 0))
               [(ex_packet_in 5 UINT32_MAX, 1), (ex_echo_request, 1)])
   \<and> ofp_out_type (EchoReply ex_echo_request)
       \<in> {OFPT_FEATURES_REQUEST, OFPT_SET_CONFIG, OFPT_ECHO_REPLY}"
proof -
  let ?tr = "lswitch_trace (ex_fx 1 2) (fst (lswitch_create (ex_cfg LSW_LEARN 60) 0))
               [(ex_packet_in 5 UINT32_MAX, 1), (ex_echo_request, 1)]"
  have mem: "(0, EchoReply ex_echo_request) \<in> set ?tr"
    unfolding ex_trace by simp
  from unknown_session_emissions
    [of "ex_fx 1 2" "fst (lswitch_create (ex_cfg LSW_LEARN 60) 0)"
        "[(ex_packet_in 5 UINT32_MAX, 1), (ex_echo_request, 1)]"]
  have "\<forall>(d, m) \<in> set ?tr.
      d = 0 \<longrightarrow> ofp_out_type m \<in> {OFPT_FEATURES_REQUEST, OFPT_SET_CONFIG, OFPT_ECHO_REPLY}"
    by blast
  with mem show ?thesis by blast
qed

text \<open>
  C1 as stated fails at the creation of a session: a default flow of the configuration that
  is a flow-mod is sent while the datapath id is 0.
\<close>

theorem default_flows_counterexample:
  "datapath_id (fst (lswitch_create ex_cfg_default_flow 0)) = 0
   \<and> map ofp_out_type (snd (lswitch_create ex_cfg_default_flow 0))
       = [OFPT_FEATURES_REQUEST, OFPT_SET_CONFIG, OFPT_FLOW_MOD]"
  by (simp add: lswitch_create_out lswitch_create_datapath_id ex_cfg_default_flow_def
        ex_cfg_def ex_msg_def)

subsection \<open>The output policy\<close>

lemma resolve_port_mode [simp]:
  "ml (resolve_port sw opp) = ml sw"
  "action_normal (resolve_port sw opp) = action_normal sw"
  by (simp_all add: resolve_port_def split: option.splits)

lemma foldl_resolve_port_mode [simp]:
  "ml (foldl resolve_port sw ps) = ml sw"
  "action_normal (foldl resolve_port sw ps) = action_normal sw"
  by (induction ps arbitrary: sw) simp_all

lemma process_switch_features_mode [simp]:
  "ml (process_switch_features sw osf) = ml sw"
  "action_normal (process_switch_features sw osf) = action_normal sw"
  by (simp_all add: process_switch_features_def split: option.splits)

lemma learn_source_mode [simp]:
  "lswitch_mode_of (learn_source sw fl now) = lswitch_mode_of sw"
  by (simp add: lswitch_mode_of_def learn_source_def split: option.splits)

lemma lswitch_process_packet_mode:
  "lswitch_mode_of (fst (lswitch_process_packet fx sw msg now)) = lswitch_mode_of sw"
proof (cases rule: lswitch_process_packet_cases [of fx sw msg now])
  case resend
  then show ?thesis by (simp add: lswitch_mode_of_def send_features_request_def)
next
  case drop
  then show ?thesis by simp
next
  case echo
  then show ?thesis by (simp add: process_echo_request_def)
next
  case features
  then show ?thesis by (simp add: lswitch_mode_of_def)
next
  case packet_in
  then show ?thesis by (simp add: process_packet_in_state)
qed

lemma lswitch_process_all_mode:
  "lswitch_mode_of (lswitch_process_all fx sw msgs) = lswitch_mode_of sw"
  by (induction fx sw msgs rule: lswitch_process_all.induct)
     (simp_all add: lswitch_process_packet_mode)

lemma ex_sw_normal_choose:
  "fst (lswitch_choose_destination (ex_sw LSW_NORMAL 60)
          \<lparr>in_port = 5, dl_src = 0x001122334455, dl_dst = 0x66778899aabb, dl_vlan = 0,
           l3_l4 = []\<rparr> 9) = OFPP_FLOOD"
  by (simp add: lswitch_choose_destination_def learn_source_def use_normal_def ex_sw_fields
        eth_addr_is_reserved_def)

text \<open>
  C2. The code does not do what the claim says. A session created in normal mode, after its
  handshake, answers FLOOD and not NORMAL to a packet-in whose candidate port is FLOOD (the
  destination is not reserved, and normal mode has no learning table).
\<close>

theorem normal_mode_answers_flood:
  "cfg_mode (ex_cfg LSW_NORMAL 60) = LSW_NORMAL
   \<and> lswitch_process_all (ex_fx 1 2) (fst (lswitch_create (ex_cfg LSW_NORMAL 60) 0))
         [(ex_features_reply 0x0123456789abcdef [\<lparr>opp_port_no = 5, opp_name = ''eth0''\<rparr>], 1)]
       = ex_sw LSW_NORMAL 60
   \<and> action_normal (ex_sw LSW_NORMAL 60)
   \<and> ml (ex_sw LSW_NORMAL 60) = None
   \<and> fst (lswitch_choose_destination (ex_sw LSW_NORMAL 60)
            \<lparr>in_port = 5, dl_src = 0x001122334455, dl_dst = 0x66778899aabb, dl_vlan = 0,
             l3_l4 = []\<rparr> 9) = OFPP_FLOOD
   \<and> OFPP_FLOOD \<noteq> OFPP_NORMAL"
proof -
  have "lswitch_process_all (ex_fx 1 2) (fst (lswitch_create (ex_cfg LSW_NORMAL 60) 0))
         [(ex_features_reply 0x0123456789abcdef [\<lparr>opp_port_no = 5, opp_name = ''eth0''\<rparr>], 1)]
       = ex_sw LSW_NORMAL 60"
    by (simp only: ex_sw_reached)
  moreover have "cfg_mode (ex_cfg LSW_NORMAL 60) = LSW_NORMAL"
    by (simp add: ex_cfg_def)
  moreover have "OFPP_FLOOD \<noteq> OFPP_NORMAL"
    by (simp add: ofp_consts)
  ultimately show ?thesis
    by (simp add: ex_sw_normal_choose ex_sw_fields)
qed

text \<open>
  The statement that answers NORMAL is out of reach. \<open>lswitch_create\<close> sets the flag
  \<open>action_normal\<close> only in normal mode and makes a learning table only in learn mode, and
  nothing changes either afterwards: in every state a session reaches, a session with the
  flag has no table, its candidate is FLOOD, and the engine answers what it answers with
  the flag cleared.
\<close>

lemma lswitch_process_packet_action_normal:
  "action_normal (fst (lswitch_process_packet fx sw msg now)) = action_normal sw"
proof (cases rule: lswitch_process_packet_cases [of fx sw msg now])
  case resend
  then show ?thesis by (simp add: send_features_request_def)
next
  case drop
  then show ?thesis by simp
next
  case echo
  then show ?thesis by (simp add: process_echo_request_def)
next
  case features
  then show ?thesis by simp
next
  case packet_in
  then show ?thesis by (simp add: process_packet_in_state)
qed

lemma lswitch_process_all_action_normal:
  "action_normal (lswitch_process_all fx sw msgs) = action_normal sw"
  by (induction fx sw msgs rule: lswitch_process_all.induct)
     (simp_all add: lswitch_process_packet_action_normal)

lemma action_normal_without_table:
  assumes "sw = lswitch_process_all fx (fst (lswitch_create cfg t0)) msgs"
    and "action_normal sw"
  shows "ml sw = None"
proof -
  have "action_normal (fst (lswitch_create cfg t0)) = (cfg_mode cfg = LSW_NORMAL)"
    by (simp add: lswitch_create_def send_features_request_def Let_def)
  with assms have "cfg_mode cfg = LSW_NORMAL"
    by (simp add: lswitch_process_all_action_normal)
  then have "lswitch_mode_of sw = LSW_NORMAL"
    using assms(1) by (simp add: lswitch_process_all_mode lswitch_create_mode)
  then show ?thesis
    by (simp add: lswitch_mode_of_def split: if_splits)
qed

lemma normal_action_out_of_reach:
  assumes "sw = lswitch_process_all fx (fst (lswitch_create cfg t0)) msgs"
  shows "fst (lswitch_choose_destination sw fl now) =
           fst (lswitch_choose_destination (sw\<lparr>action_normal := False\<rparr>) fl now)"
proof (cases "action_normal sw")
  case True
  with assms have "ml sw = None"
    by (rule action_normal_without_table)
  then show ?thesis
    by (simp add: lswitch_choose_destination_def learn_source_def use_normal_def)
next
  case False
  then have "sw\<lparr>action_normal := False\<rparr> = sw"
    by simp
  then show ?thesis by simp
qed

text \<open>
  C4, as amended. For a packet-in with reason NO_MATCH, a reserved multicast destination and
  no buffer, the chosen port is NONE, the action list is empty and no packet-out is sent.
  When \<open>max_idle\<close> is not negative the session still sends one flow-mod, with the
  empty action list, which makes the datapath drop the flow; when \<open>max_idle\<close> is
  negative it sends nothing.
\<close>

theorem reserved_multicast_packet_in:
  assumes "opi_reason opi = OFPR_NO_MATCH"
    and "eth_addr_is_reserved (dl_dst (flow_extract fx (pkt_of opi) (opi_in_port opi)))"
    and "opi_buffer_id opi = UINT32_MAX"
  shows "fst (lswitch_choose_destination sw
                (flow_extract fx (pkt_of opi) (opi_in_port opi)) now) = OFPP_NONE
       \<and> snd (process_packet_in fx sw opi now) =
           (if 0 \<le> max_idle sw
            then [AddFlow (flow_extract fx (pkt_of opi) (opi_in_port opi)) UINT32_MAX
                    (word_of_int (max_idle sw)) [] (wildcards sw)]
            else [])"
proof -
  have none: "fst (lswitch_choose_destination sw
                (flow_extract fx (pkt_of opi) (opi_in_port opi)) now) = OFPP_NONE"
    using assms(2) by (simp add: lswitch_choose_destination_def Let_def)
  have "OFPP_NONE \<noteq> OFPP_FLOOD"
    by (simp add: ofp_consts)
  then show ?thesis
    using assms(1,3)
    by (simp add: process_packet_in_out none Let_def make_actions_def)
qed

theorem reserved_multicast_packet_in_witness:
  "opi_reason (ex_packet_in 5 UINT32_MAX) = OFPR_NO_MATCH
   \<and> eth_addr_is_reserved (dl_dst (flow_extract (ex_fx 0x001122334455 0x0180c2000000)
         (pkt_of (ex_packet_in 5 UINT32_MAX)) (opi_in_port (ex_packet_in 5 UINT32_MAX))))
   \<and> opi_buffer_id (ex_packet_in 5 UINT32_MAX) = UINT32_MAX
   \<and> max_idle (ex_sw LSW_LEARN (- 1)) = - 1
   \<and> snd (process_packet_in (ex_fx 0x001122334455 0x0180c2000000) (ex_sw LSW_LEARN (- 1))
            (ex_packet_in 5 UINT32_MAX) 9) = []"
proof -
  have r: "eth_addr_is_reserved (dl_dst (flow_extract (ex_fx 0x001122334455 0x0180c2000000)
         (pkt_of (ex_packet_in 5 UINT32_MAX)) (opi_in_port (ex_packet_in 5 UINT32_MAX))))"
    by (simp add: ex_flow eth_addr_is_reserved_def)
  from reserved_multicast_packet_in
    [OF ex_packet_in_fields(1) r ex_packet_in_fields(3), of "ex_sw LSW_LEARN (- 1)" 9]
  have "snd (process_packet_in (ex_fx 0x001122334455 0x0180c2000000) (ex_sw LSW_LEARN (- 1))
            (ex_packet_in 5 UINT32_MAX) 9) = []"
    by (simp add: ex_sw_fields)
  with r show ?thesis
    by (simp add: ex_packet_in_fields ex_sw_fields)
qed

text \<open>
  C4 as stated fails: with \<open>max_idle\<close> 60 the packet-in for 01:80:C2:00:00:00 makes
  the session send a flow-mod.
\<close>

theorem reserved_multicast_counterexample:
  "eth_addr_is_reserved 0x0180c2000000
   \<and> datapath_id (ex_sw LSW_LEARN 60) = 0x0123456789abcdef
   \<and> opi_reason (ex_packet_in 5 UINT32_MAX) = OFPR_NO_MATCH
   \<and> opi_buffer_id (ex_packet_in 5 UINT32_MAX) = UINT32_MAX
   \<and> snd (lswitch_process_packet (ex_fx 0x001122334455 0x0180c2000000) (ex_sw LSW_LEARN 60)
            (ex_packet_in 5 UINT32_MAX) 9)
       = [AddFlow \<lparr>in_port = 5, dl_src = 0x001122334455, dl_dst = 0x0180c2000000, dl_vlan = 0,
                   l3_l4 = [0xca, 0xfe]\<rparr>
            UINT32_MAX 60 [] (wildcards (ex_sw LSW_LEARN 60))]"
proof -
  have "lswitch_process_packet (ex_fx 0x001122334455 0x0180c2000000) (ex_sw LSW_LEARN 60)
            (ex_packet_in 5 UINT32_MAX) 9
        = process_packet_in (ex_fx 0x001122334455 0x0180c2000000) (ex_sw LSW_LEARN 60)
            (ex_packet_in 5 UINT32_MAX) 9"
    by (simp add: dispatch_packet_in ex_sw_fields ex_packet_in_fields ofp_consts)
  then show ?thesis
    by (simp add: process_packet_in_out ex_packet_in_fields ex_flow ex_pkt Let_def
          lswitch_choose_destination_def eth_addr_is_reserved_def make_actions_def ex_sw_fields
          ofp_consts)
qed

subsection \<open>The learning table\<close>

lemma find_filter_not: "find P (filter (\<lambda>x. \<not> P x) xs) = None"
  by (simp add: find_None_iff)

lemma find_snoc: "find P xs = None \<Longrightarrow> P y \<Longrightarrow> find P (xs @ [y]) = Some y"
  by (induction xs) (auto split: if_splits)

lemma find_None_tl: "find P xs = None \<Longrightarrow> find P (tl xs) = None"
  by (cases xs) (auto split: if_splits)

lemma find_SomeD: "find P xs = Some x \<Longrightarrow> P x \<and> x \<in> set xs"
  by (induction xs) (auto split: if_splits)

lemma mac_learning_learn_cases:
  obtains (refused) "eth_addr_is_multicast src \<or> eth_addr_is_zero src"
      "snd (mac_learning_learn tbl src vlan port GRAT_ARP_LOCK_NONE now) = tbl"
  | (locked) e where "find (me_has_key src vlan) tbl = Some e" "me_locked now e"
      "snd (mac_learning_learn tbl src vlan port GRAT_ARP_LOCK_NONE now) = tbl"
  | (inserted) "\<not> eth_addr_is_multicast src" "\<not> eth_addr_is_zero src"
      "find (me_has_key src vlan) tbl = None"
      "snd (mac_learning_learn tbl src vlan port GRAT_ARP_LOCK_NONE now) =
         (if MAX_ENTRIES \<le> length tbl then tl tbl else tbl) @
         [\<lparr>me_mac = src, me_vlan = vlan, me_port = port, me_learned_ts = now,
           me_used_ts = now, me_lock = None\<rparr>]"
  | (touched) e e' where "\<not> eth_addr_is_multicast src" "\<not> eth_addr_is_zero src"
      "find (me_has_key src vlan) tbl = Some e" "\<not> me_locked now e"
      "snd (mac_learning_learn tbl src vlan port GRAT_ARP_LOCK_NONE now) =
         filter (\<lambda>x. \<not> me_has_key src vlan x) tbl @ [e']"
      "me_mac e' = me_mac e" "me_vlan e' = me_vlan e" "me_lock e' = me_lock e"
      "me_port e' = port" "me_used_ts e' = now"
proof (cases "eth_addr_is_multicast src \<or> eth_addr_is_zero src")
  case True
  then have "snd (mac_learning_learn tbl src vlan port GRAT_ARP_LOCK_NONE now) = tbl"
    by (simp add: mac_learning_learn_def)
  with True show ?thesis by (rule refused)
next
  case unicast: False
  show ?thesis
  proof (cases "find (me_has_key src vlan) tbl")
    case None
    with unicast show ?thesis
      by (intro inserted) (simp_all add: mac_learning_learn_def)
  next
    case (Some e)
    show ?thesis
    proof (cases "me_locked now e")
      case True
      with unicast Some show ?thesis
        by (intro locked [of e]) (simp_all add: mac_learning_learn_def)
    next
      case unlocked: False
      show ?thesis
      proof (cases "me_port e = port")
        case True
        with unicast Some unlocked show ?thesis
          by (intro touched [of e "e\<lparr>me_used_ts := now\<rparr>"])
             (simp_all add: mac_learning_learn_def)
      next
        case False
        with unicast Some unlocked show ?thesis
          by (intro touched
                [of e "e\<lparr>me_port := port, me_learned_ts := now, me_used_ts := now\<rparr>"])
             (simp_all add: mac_learning_learn_def)
      qed
    qed
  qed
qed

lemma learn_unlocked:
  assumes "\<forall>e \<in> set tbl. me_lock e = None"
  shows "\<forall>e \<in> set (snd (mac_learning_learn tbl src vlan port GRAT_ARP_LOCK_NONE now)).
           me_lock e = None"
proof (cases rule: mac_learning_learn_cases [of src tbl vlan port now])
  case refused
  with assms show ?thesis by simp
next
  case (locked e)
  with assms show ?thesis by simp
next
  case inserted
  have "set (tl tbl) \<subseteq> set tbl"
    by (cases tbl) auto
  with assms have "\<forall>e \<in> set (if MAX_ENTRIES \<le> length tbl then tl tbl else tbl). me_lock e = None"
    by auto
  then show ?thesis
    unfolding inserted(4) by simp
next
  case (touched e e')
  from touched(3) have "e \<in> set tbl"
    using find_SomeD by fastforce
  with assms touched(8) have "me_lock e' = None"
    by simp
  with assms show ?thesis
    unfolding touched(5) by simp
qed

lemma learn_then_lookup:
  assumes unlocked: "\<forall>e \<in> set tbl. me_lock e = None"
    and unicast: "\<not> eth_addr_is_multicast src" "\<not> eth_addr_is_zero src"
  shows "mac_learning_lookup (snd (mac_learning_learn tbl src vlan port GRAT_ARP_LOCK_NONE now))
           src vlan now = uint port"
proof (cases rule: mac_learning_learn_cases [of src tbl vlan port now])
  case refused
  with unicast show ?thesis by simp
next
  case (locked e)
  from locked(1) have "e \<in> set tbl"
    using find_SomeD by fastforce
  with unlocked locked(2) show ?thesis
    by (simp add: me_locked_def)
next
  case inserted
  let ?new = "\<lparr>me_mac = src, me_vlan = vlan, me_port = port, me_learned_ts = now,
               me_used_ts = now, me_lock = None\<rparr>"
  let ?pre = "if MAX_ENTRIES \<le> length tbl then tl tbl else tbl"
  have "find (me_has_key src vlan) ?pre = None"
    using inserted(3) by (simp add: find_None_tl)
  moreover have "me_has_key src vlan ?new"
    by (simp add: me_has_key_def)
  ultimately have "find (me_has_key src vlan) (?pre @ [?new]) = Some ?new"
    by (rule find_snoc)
  then show ?thesis
    unfolding inserted(4) by (simp add: mac_learning_lookup_def me_locked_def AGE_HARD_def)
next
  case (touched e e')
  from touched(3) have e: "e \<in> set tbl" "me_has_key src vlan e"
    using find_SomeD by fastforce+
  with unlocked touched(8) have lock: "me_lock e' = None"
    by simp
  have key: "me_has_key src vlan e'"
    using e(2) touched(6,7) by (simp add: me_has_key_def)
  have "find (me_has_key src vlan) (filter (\<lambda>x. \<not> me_has_key src vlan x) tbl @ [e']) = Some e'"
    using find_filter_not key by (rule find_snoc)
  then show ?thesis
    unfolding touched(5) using touched(9,10) lock
    by (simp add: mac_learning_lookup_def me_locked_def AGE_HARD_def)
qed

lemma choose_destination_same_address:
  assumes "lswitch_mode_of sw = LSW_LEARN" "ml_unlocked sw"
    and "dl_src fl = dl_dst fl"
    and "eth_addr_is_reserved (dl_dst fl)
         \<or> (\<not> eth_addr_is_multicast (dl_src fl) \<and> \<not> eth_addr_is_zero (dl_src fl))"
  shows "fst (lswitch_choose_destination sw fl now) = OFPP_NONE"
proof (cases "eth_addr_is_reserved (dl_dst fl)")
  case True
  then show ?thesis by (simp add: lswitch_choose_destination_def Let_def)
next
  case False
  with assms(4) have unicast: "\<not> eth_addr_is_multicast (dl_src fl)" "\<not> eth_addr_is_zero (dl_src fl)"
    by simp_all
  from assms(1) obtain tbl where tbl: "ml sw = Some tbl"
    by (auto simp: lswitch_mode_of_def split: if_splits)
  with assms(2) have unlocked: "\<forall>e \<in> set tbl. me_lock e = None"
    by (simp add: ml_unlocked_def)
  let ?tbl' = "snd (mac_learning_learn tbl (dl_src fl) 0 (in_port fl) GRAT_ARP_LOCK_NONE now)"
  have "mac_learning_lookup ?tbl' (dl_dst fl) 0 now = uint (in_port fl)"
    using learn_then_lookup [OF unlocked unicast, of 0 "in_port fl" now] assms(3) by simp
  then show ?thesis
    using False tbl
    by (simp add: lswitch_choose_destination_def learn_source_def Let_def)
qed

lemma learn_source_unlocked:
  "ml_unlocked sw \<Longrightarrow> ml_unlocked (learn_source sw fl now)"
  using learn_unlocked
  by (auto simp: ml_unlocked_def learn_source_def split: option.splits)

lemma lswitch_process_packet_unlocked:
  assumes "ml_unlocked sw"
  shows "ml_unlocked (fst (lswitch_process_packet fx sw msg now))"
proof (cases rule: lswitch_process_packet_cases [of fx sw msg now])
  case resend
  with assms show ?thesis by (simp add: ml_unlocked_def send_features_request_def)
next
  case drop
  with assms show ?thesis by simp
next
  case echo
  with assms show ?thesis by (simp add: process_echo_request_def)
next
  case features
  with assms show ?thesis by (simp add: ml_unlocked_def)
next
  case packet_in
  with assms show ?thesis by (simp add: process_packet_in_state learn_source_unlocked)
qed

lemma lswitch_process_all_unlocked:
  "ml_unlocked sw \<Longrightarrow> ml_unlocked (lswitch_process_all fx sw msgs)"
  by (induction fx sw msgs rule: lswitch_process_all.induct)
     (simp_all add: lswitch_process_packet_unlocked)

lemma lswitch_create_unlocked: "ml_unlocked (fst (lswitch_create cfg now))"
  by (simp add: ml_unlocked_def lswitch_create_def send_features_request_def Let_def
        mac_learning_create_def)

text \<open>
  C5, as amended. In every state a session created in learn mode reaches by receiving
  messages, a flow whose source and destination are the same address is given the port NONE
  when the address can be learned (neither multicast nor zero) or is a reserved multicast
  address.
\<close>

theorem same_source_and_destination:
  assumes "cfg_mode cfg = LSW_LEARN"
    and "sw = lswitch_process_all fx (fst (lswitch_create cfg t0)) msgs"
    and "dl_src fl = dl_dst fl"
    and "eth_addr_is_reserved (dl_dst fl)
         \<or> (\<not> eth_addr_is_multicast (dl_src fl) \<and> \<not> eth_addr_is_zero (dl_src fl))"
  shows "fst (lswitch_choose_destination sw fl now) = OFPP_NONE"
proof -
  have "lswitch_mode_of sw = LSW_LEARN"
    using assms(1,2) by (simp add: lswitch_process_all_mode lswitch_create_mode)
  moreover have "ml_unlocked sw"
    unfolding assms(2) by (rule lswitch_process_all_unlocked) (rule lswitch_create_unlocked)
  ultimately show ?thesis
    using assms(3,4) by (rule choose_destination_same_address)
qed

theorem same_source_and_destination_witness:
  "cfg_mode (ex_cfg LSW_LEARN 60) = LSW_LEARN
   \<and> ex_sw LSW_LEARN 60 =
       lswitch_process_all (ex_fx 1 2) (fst (lswitch_create (ex_cfg LSW_LEARN 60) 0))
         [(ex_features_reply 0x0123456789abcdef [\<lparr>opp_port_no = 5, opp_name = ''eth0''\<rparr>], 1)]
   \<and> \<not> eth_addr_is_multicast 0x001122334455
   \<and> \<not> eth_addr_is_zero 0x001122334455
   \<and> fst (lswitch_choose_destination (ex_sw LSW_LEARN 60)
            \<lparr>in_port = 5, dl_src = 0x001122334455, dl_dst = 0x001122334455, dl_vlan = 0,
             l3_l4 = []\<rparr> 9) = OFPP_NONE"
proof -
  let ?fl = "\<lparr>in_port = 5, dl_src = 0x001122334455, dl_dst = 0x001122334455, dl_vlan = 0,
             l3_l4 = []\<rparr>"
  have mode: "cfg_mode (ex_cfg LSW_LEARN 60) = LSW_LEARN"
    by (simp add: ex_cfg_def)
  have reach: "ex_sw LSW_LEARN 60 =
       lswitch_process_all (ex_fx 1 2) (fst (lswitch_create (ex_cfg LSW_LEARN 60) 0))
         [(ex_features_reply 0x0123456789abcdef [\<lparr>opp_port_no = 5, opp_name = ''eth0''\<rparr>], 1)]"
    by (simp only: ex_sw_reached)
  have same: "dl_src ?fl = dl_dst ?fl"
    by simp
  have unicast: "\<not> eth_addr_is_multicast 0x001122334455" "\<not> eth_addr_is_zero 0x001122334455"
    by (simp_all add: eth_addr_is_multicast_def eth_addr_is_zero_def)
  then have learnable: "eth_addr_is_reserved (dl_dst ?fl)
         \<or> (\<not> eth_addr_is_multicast (dl_src ?fl) \<and> \<not> eth_addr_is_zero (dl_src ?fl))"
    by simp
  from same_source_and_destination [OF mode reach same learnable, of 9] mode reach unicast
  show ?thesis by blast
qed

text \<open>
  C5 as stated fails for the broadcast address: the table refuses to learn a multicast
  source, the lookup of the destination finds nothing, and the flow is flooded.
\<close>

theorem same_source_and_destination_counterexample:
  "lswitch_mode_of (ex_sw LSW_LEARN 60) = LSW_LEARN
   \<and> fst (lswitch_choose_destination (ex_sw LSW_LEARN 60)
            \<lparr>in_port = 5, dl_src = 0xffffffffffff, dl_dst = 0xffffffffffff, dl_vlan = 0,
             l3_l4 = []\<rparr> 9) = OFPP_FLOOD
   \<and> OFPP_FLOOD \<noteq> OFPP_NONE"
  by (simp add: lswitch_mode_of_def ex_sw_fields lswitch_choose_destination_def learn_source_def
        Let_def mac_defs eth_addr_is_reserved_def use_normal_def ofp_consts)

end
